theory Spec2Isabelle
  imports
    Complex_Main
    "HOL-Library.Char_ord"
    "HOL-Library.List_Lexorder"
    "HOL-Library.Product_Lexorder"
begin

section \<open>The energy dashboard (src/app.py)\<close>

text \<open>
  The dashboard loads a CSV into a pandas table, joins an ISO code onto every row, and
  answers each interaction by filtering the table, grouping and summing it, and handing
  the derived table to a plotly chart constructor. The embedding below follows app.py
  function by function. Energy values are modelled as \<open>real\<close> numbers, years as
  unbounded integers, and a chart as the title and the table that the code passes to
  plotly; rendering is outside the model. Sums are exact where a table is summed once,
  one list in one order; the pie builder, which sums in two stages, takes its summation
  routines as parameters, and 64-bit addition is defined for them.
\<close>

subsection \<open>Exceptions\<close>

datatype py_exception =
    FileNotFoundError string
  | ParserError string
  | ValueError string
  | KeyError string
  | IndexError string
  | LookupError string
  | OtherException string string
  | PreventUpdate

subsection \<open>Rows of the working table\<close>

text \<open>
  One row of the table that \<open>load_data\<close> returns, and the same row once the
  column \<open>ISO_A3\<close> has been added (line 99); \<open>None\<close> is the missing code.
\<close>

record loaded_record =
  Entity :: string
  Year :: int
  wind_twh :: real
  hydro_twh :: real
  solar_twh :: real
  other_twh :: real

record energy_record = loaded_record +
  ISO_A3 :: "string option"

text \<open>
  The dropdown of energy types offers exactly the four column names of the dictionary
  \<open>energy_types\<close> (lines 84-89), in this order.
\<close>

datatype energy_type = WindPower | SolarPower | HydroPower | OtherRenewables

fun column_name :: "energy_type \<Rightarrow> string" where
  "column_name WindPower = ''Electricity from wind - TWh''"
| "column_name SolarPower = ''Electricity from solar - TWh''"
| "column_name HydroPower = ''Electricity from hydro - TWh''"
| "column_name OtherRenewables = ''Other renewables including bioenergy - TWh''"

definition energy_types :: "(string \<times> energy_type) list" where
  "energy_types =
     [(''Wind Power'', WindPower), (''Solar Power'', SolarPower),
      (''Hydro Power'', HydroPower), (''Other Renewables'', OtherRenewables)]"

text \<open>\<open>data[name]\<close> for an energy column, read at one row.\<close>

fun cell_of :: "energy_type \<Rightarrow> energy_record \<Rightarrow> real" where
  "cell_of WindPower r = wind_twh r"
| "cell_of SolarPower r = solar_twh r"
| "cell_of HydroPower r = hydro_twh r"
| "cell_of OtherRenewables r = other_twh r"

subsection \<open>Boolean masks and boolean indexing\<close>

text \<open>
  \<open>data['Year'] == y\<close>, \<open>>=\<close>, \<open><=\<close> and \<open>.isin(...)\<close> compare a column
  elementwise and give a column of booleans; \<open>&\<close> combines two masks elementwise;
  \<open>data[mask]\<close> keeps the rows whose mask entry is true, in their order.
\<close>

definition series_eq :: "int list \<Rightarrow> int \<Rightarrow> bool list" where
  "series_eq col y = map (\<lambda>v. v = y) col"

definition series_ge :: "int list \<Rightarrow> int \<Rightarrow> bool list" where
  "series_ge col y = map (\<lambda>v. v \<ge> y) col"

definition series_le :: "int list \<Rightarrow> int \<Rightarrow> bool list" where
  "series_le col y = map (\<lambda>v. v \<le> y) col"

definition isin :: "string list \<Rightarrow> string list \<Rightarrow> bool list" where
  "isin col names = map (\<lambda>v. v \<in> set names) col"

definition mask_and :: "bool list \<Rightarrow> bool list \<Rightarrow> bool list" where
  "mask_and m1 m2 = map (\<lambda>(a, b). a \<and> b) (zip m1 m2)"

definition boolean_index :: "'a list \<Rightarrow> bool list \<Rightarrow> 'a list" where
  "boolean_index rows flags = map fst (filter snd (zip rows flags))"

text \<open>Python's \<open>xs[i]\<close> for a non-negative literal index.\<close>

definition py_index :: "'a list \<Rightarrow> nat \<Rightarrow> py_exception + 'a" where
  "py_index xs i =
     (if i < length xs then Inr (xs ! i) else Inl (IndexError ''list index out of range''))"

text \<open>
  \<open>filtered_df\<close> of \<open>update_energy_types\<close> (lines 422-425) and its
  \<open>cumulative_data\<close> (lines 442-445).
\<close>

definition energy_types_filtered_df ::
  "energy_record list \<Rightarrow> int \<Rightarrow> string list \<Rightarrow> energy_record list" where
  "energy_types_filtered_df energy_data selected_year selected_entities =
     boolean_index energy_data
       (mask_and (series_eq (map Year energy_data) selected_year)
                 (isin (map Entity energy_data) selected_entities))"

definition energy_types_cumulative_data ::
  "energy_record list \<Rightarrow> int \<Rightarrow> string list \<Rightarrow> energy_record list" where
  "energy_types_cumulative_data energy_data selected_year selected_entities =
     boolean_index energy_data
       (mask_and (series_le (map Year energy_data) selected_year)
                 (isin (map Entity energy_data) selected_entities))"

text \<open>
  \<open>filtered_df\<close> of \<open>update_search_section\<close> (lines 480-484); the two ends of
  the range are read with \<open>year_range[0]\<close> and \<open>year_range[1]\<close>.
\<close>

definition search_filtered_df ::
  "energy_record list \<Rightarrow> int list \<Rightarrow> string list \<Rightarrow> py_exception + energy_record list" where
  "search_filtered_df energy_data year_range regions =
     (case py_index year_range 0 of
        Inl e \<Rightarrow> Inl e
      | Inr lo \<Rightarrow>
          (case py_index year_range 1 of
             Inl e \<Rightarrow> Inl e
           | Inr hi \<Rightarrow>
               Inr (boolean_index energy_data
                      (mask_and
                         (mask_and (series_ge (map Year energy_data) lo)
                                   (series_le (map Year energy_data) hi))
                         (isin (map Entity energy_data) regions)))))"

subsection \<open>Grouping, summing and running sums\<close>

text \<open>
  \<open>groupby(key)[columns].sum()\<close> gives one row per distinct key, in ascending key
  order, each column summed within the group. The result is kept column by column, as
  pandas keeps it: the index (the keys) and one list of sums per named column.
\<close>

definition group_keys :: "('r \<Rightarrow> 'k::linorder) \<Rightarrow> 'r list \<Rightarrow> 'k list" where
  "group_keys key rows = sort (remdups (map key rows))"

definition group_sum :: "('r \<Rightarrow> 'k) \<Rightarrow> ('r \<Rightarrow> real) \<Rightarrow> 'r list \<Rightarrow> 'k \<Rightarrow> real" where
  "group_sum key c rows k = sum_list (map c (filter (\<lambda>r. key r = k) rows))"

definition groupby_sum ::
  "('r \<Rightarrow> 'k::linorder) \<Rightarrow> (string \<times> ('r \<Rightarrow> real)) list \<Rightarrow> 'r list \<Rightarrow>
     'k list \<times> (string \<times> real list) list" where
  "groupby_sum key cols rows =
     (let ks = group_keys key rows
      in (ks, map (\<lambda>(name, c). (name, map (group_sum key c rows) ks)) cols))"

text \<open>\<open>list(energy_types.values())\<close>: the four energy columns, each with its reader.\<close>

definition energy_type_columns :: "(string \<times> (energy_record \<Rightarrow> real)) list" where
  "energy_type_columns = map (\<lambda>(label, t). (column_name t, cell_of t)) energy_types"

text \<open>\<open>cumsum()\<close> of one column: the running sum from the top.\<close>

fun cumsum_from :: "'a::monoid_add \<Rightarrow> 'a list \<Rightarrow> 'a list" where
  "cumsum_from acc [] = []"
| "cumsum_from acc (x # xs) = (acc + x) # cumsum_from (acc + x) xs"

definition cumsum :: "'a::monoid_add list \<Rightarrow> 'a list" where
  "cumsum xs = cumsum_from 0 xs"

text \<open>\<open>data['Year'].max()\<close>; an empty column has no maximum (pandas gives NaN).\<close>

fun series_max :: "int list \<Rightarrow> int option" where
  "series_max [] = None"
| "series_max (x # xs) = (case series_max xs of None \<Rightarrow> Some x | Some m \<Rightarrow> Some (max x m))"

subsection \<open>Sums in 64-bit arithmetic\<close>

text \<open>
  The pie builder adds numbers in two stages: within each entity, and then across the
  entities. In 64-bit floating point the result of such a sum depends on what is added to
  what, and the routines that pandas uses for the sum of a group and for the sum of a
  column are not part of app.py. They are therefore parameters of the pie builder: each
  takes the values in their order and returns their sum.
\<close>

record float_sums =
  group_sum_of :: "real list \<Rightarrow> real"
  frame_sum_of :: "real list \<Rightarrow> real"

text \<open>In exact arithmetic both routines are the ordinary sum.\<close>

definition exact_sums :: float_sums where
  "exact_sums = \<lparr>group_sum_of = sum_list, frame_sum_of = sum_list\<rparr>"

text \<open>
  IEEE 754 binary64 addition on the reals that are doubles: the exact sum, rounded to 53
  significant bits, ties to the even neighbour. \<open>binade x\<close> is the exponent \<open>e\<close> with
  \<open>2^e \<le> |x| < 2^(e+1)\<close>, kept within the exponents of a double (at \<open>-1022\<close> the
  subnormal numbers begin). A sum beyond the largest double is an infinity in IEEE
  arithmetic; the model has no infinity.
\<close>

function binade_up :: "int \<Rightarrow> real \<Rightarrow> int" where
  "binade_up e x = (if 1023 \<le> e \<or> \<bar>x\<bar> < 2 powi (e + 1) then e else binade_up (e + 1) x)"
  by pat_completeness auto
termination
  by (relation "measure (\<lambda>(e, x). nat (1023 - e))") auto

function binade_down :: "int \<Rightarrow> real \<Rightarrow> int" where
  "binade_down e x = (if e \<le> - 1022 \<or> 2 powi e \<le> \<bar>x\<bar> then e else binade_down (e - 1) x)"
  by pat_completeness auto
termination
  by (relation "measure (\<lambda>(e, x). nat (e + 1022))") auto

declare binade_up.simps [simp del] binade_down.simps [simp del]

definition binade :: "real \<Rightarrow> int" where
  "binade x = (if 1 \<le> \<bar>x\<bar> then binade_up 0 x else binade_down (- 1) x)"

definition round_half_even :: "real \<Rightarrow> int" where
  "round_half_even q =
     (let f = \<lfloor>q\<rfloor>; d = q - of_int f
      in if d < 1 / 2 then f else if 1 / 2 < d then f + 1 else if even f then f else f + 1)"

definition float64_round :: "real \<Rightarrow> real" where
  "float64_round x =
     (if x = 0 then 0
      else (let ulp = 2 powi (binade x - 52) in of_int (round_half_even (x / ulp)) * ulp))"

definition float64_add :: "real \<Rightarrow> real \<Rightarrow> real" where
  "float64_add x y = float64_round (x + y)"

text \<open>
  Adding the values one after the other, from the left. A column of fewer than eight
  values is added this way, and so is a group of one value.
\<close>

definition sequential_sum64 :: "real list \<Rightarrow> real" where
  "sequential_sum64 xs = foldl float64_add 0 xs"

definition float64_sums :: float_sums where
  "float64_sums = \<lparr>group_sum_of = sequential_sum64, frame_sum_of = sequential_sum64\<rparr>"

text \<open>\<open>groupby(key)[columns].sum()\<close> with the sum of a group as a parameter.\<close>

definition groupby_agg ::
  "(real list \<Rightarrow> real) \<Rightarrow> ('r \<Rightarrow> 'k::linorder) \<Rightarrow> (string \<times> ('r \<Rightarrow> real)) list \<Rightarrow> 'r list \<Rightarrow>
     'k list \<times> (string \<times> real list) list" where
  "groupby_agg group_sum_routine key cols rows =
     (let ks = group_keys key rows
      in (ks, map (\<lambda>(name, c).
                    (name, map (\<lambda>k. group_sum_routine (map c (filter (\<lambda>r. key r = k) rows))) ks))
                cols))"

subsection \<open>Printing integers\<close>

function str_nat :: "nat \<Rightarrow> string" where
  "str_nat n =
     (if n < 10 then [char_of (48 + n)]
      else str_nat (n div 10) @ [char_of (48 + n mod 10)])"
  by pat_completeness auto
termination
  by (relation "measure id") auto

declare str_nat.simps [simp del]

definition str_int :: "int \<Rightarrow> string" where
  "str_int i = (if i < 0 then CHR ''-'' # str_nat (nat (- i)) else str_nat (nat i))"

subsection \<open>Figures\<close>

text \<open>
  A figure is the chart kind, the title, the label of the value axis, the columns plotted
  and the table handed to plotly. The shared theme (\<open>update_layout\<close>) only sets
  colours and is left out.
\<close>

datatype chart_kind = BlankChart | LineChart | BarChart | PieChart | AreaChart | ChoroplethChart

datatype chart_table =
    NoTable
  | RecordTable "energy_record list"
  | SliceTable "(string \<times> real) list"
  | YearTable "int list" "(string \<times> real list) list"
  | MapTable "(string \<times> string \<times> real) list"

record figure =
  chart :: chart_kind
  title :: string
  value_label :: string
  y_columns :: "string list"
  table :: chart_table

text \<open>\<open>go.Figure()\<close> with only a title: the placeholder of the callbacks.\<close>

definition empty_fig :: "string \<Rightarrow> figure" where
  "empty_fig t =
     \<lparr>chart = BlankChart, title = t, value_label = [], y_columns = [], table = NoTable\<rparr>"

definition create_energy_bar_fig :: "energy_record list \<Rightarrow> figure" where
  "create_energy_bar_fig data =
     \<lparr>chart = BarChart,
      title = ''Energy Consumption by Entity and Energy Type'',
      value_label = ''Electricity Consumption (TWh)'',
      y_columns = map fst energy_type_columns,
      table = RecordTable data\<rparr>"

text \<open>
  \<open>create_energy_pie_fig\<close> (lines 135-148): \<open>pie_data\<close> groups by entity and sums the
  four columns; \<open>pie_sum\<close> sums each column of \<open>pie_data\<close> and names the two columns
  of the result. The first sum is the sum of a group, the second the sum of a column.
\<close>

definition pie_data ::
  "float_sums \<Rightarrow> energy_record list \<Rightarrow> string list \<times> (string \<times> real list) list" where
  "pie_data arith data = groupby_agg (group_sum_of arith) Entity energy_type_columns data"

definition pie_sum :: "float_sums \<Rightarrow> energy_record list \<Rightarrow> (string \<times> real) list" where
  "pie_sum arith data =
     map (\<lambda>(name, vs). (name, frame_sum_of arith vs)) (snd (pie_data arith data))"

definition create_energy_pie_fig :: "float_sums \<Rightarrow> energy_record list \<Rightarrow> int \<Rightarrow> figure" where
  "create_energy_pie_fig arith data year =
     \<lparr>chart = PieChart,
      title = ''Energy Consumption Distribution in '' @ str_int year,
      value_label = ''Electricity Consumption (TWh)'',
      y_columns = [''Total Consumption (TWh)''],
      table = SliceTable (pie_sum arith data)\<rparr>"

text \<open>
  \<open>create_energy_area_fig\<close> (lines 150-168). With \<open>cumulative\<close> the running sum is
  taken while the year is still the index, so only the four value columns are summed.
\<close>

definition area_data :: "energy_record list \<Rightarrow> bool \<Rightarrow> int list \<times> (string \<times> real list) list" where
  "area_data data cumulative =
     (let (years, cols) = groupby_sum Year energy_type_columns data
      in if cumulative then (years, map (\<lambda>(name, vs). (name, cumsum vs)) cols)
         else (years, cols))"

definition create_energy_area_fig :: "energy_record list \<Rightarrow> bool \<Rightarrow> figure" where
  "create_energy_area_fig data cumulative =
     (let (years, cols) = area_data data cumulative
      in \<lparr>chart = AreaChart,
          title = (if cumulative then ''Cumulative Energy Consumption Over Years''
                   else ''Annual Energy Consumption Over Years''),
          value_label = (if cumulative then ''Cumulative Electricity Consumption (TWh)''
                         else ''Electricity Consumption (TWh)''),
          y_columns = map fst energy_type_columns,
          table = YearTable years cols\<rparr>)"

text \<open>
  \<open>create_worldwide_map\<close> (lines 170-187). The rows of the latest year are grouped by
  the pair of entity and ISO code; \<open>groupby\<close> leaves out a row whose key is missing.
\<close>

definition latest_year :: "energy_record list \<Rightarrow> int option" where
  "latest_year data = series_max (map Year data)"

definition latest_rows :: "energy_record list \<Rightarrow> energy_record list" where
  "latest_rows data =
     (case latest_year data of
        None \<Rightarrow> []
      | Some y \<Rightarrow> boolean_index data (series_eq (map Year data) y))"

definition entity_iso :: "energy_record \<Rightarrow> (string \<times> string) option" where
  "entity_iso r = (case ISO_A3 r of None \<Rightarrow> None | Some a3 \<Rightarrow> Some (Entity r, a3))"

definition map_data :: "energy_record list \<Rightarrow> energy_type \<Rightarrow> (string \<times> string \<times> real) list" where
  "map_data data energy_type =
     (let rows = latest_rows data;
          ks = sort (remdups (List.map_filter entity_iso rows))
      in map (\<lambda>k. (fst k, snd k,
                    sum_list (map (cell_of energy_type)
                                (filter (\<lambda>r. entity_iso r = Some k) rows)))) ks)"

definition create_worldwide_map :: "energy_record list \<Rightarrow> energy_type \<Rightarrow> figure" where
  "create_worldwide_map data energy_type =
     \<lparr>chart = ChoroplethChart,
      title = ''Global '' @ column_name energy_type @ '' Consumption in '' @
              (case latest_year data of None \<Rightarrow> ''nan'' | Some y \<Rightarrow> str_int y),
      value_label = ''Electricity Consumption (TWh)'',
      y_columns = [column_name energy_type],
      table = MapTable (map_data data energy_type)\<rparr>"

subsection \<open>Callbacks\<close>

text \<open>
  \<open>update_worldwide_map\<close> (lines 390-395). Raising \<open>PreventUpdate\<close> tells Dash to
  leave the output as it is; \<open>dash_output\<close> is that rule of the framework: the
  output takes the returned value, and keeps its current value when the callback raises.
\<close>

definition update_worldwide_map ::
  "energy_record list \<Rightarrow> energy_type option \<Rightarrow> py_exception + figure" where
  "update_worldwide_map energy_data selected_energy_type =
     (case selected_energy_type of
        None \<Rightarrow> Inl PreventUpdate
      | Some t \<Rightarrow> Inr (create_worldwide_map energy_data t))"

definition dash_output :: "'out \<Rightarrow> py_exception + 'out \<Rightarrow> 'out" where
  "dash_output current result = (case result of Inl e \<Rightarrow> current | Inr new \<Rightarrow> new)"

text \<open>Python's \<open>not xs\<close> for an optional list: true for \<open>None\<close> and for \<open>[]\<close>.\<close>

definition py_not :: "'a list option \<Rightarrow> bool" where
  "py_not xs = (case xs of None \<Rightarrow> True | Some ys \<Rightarrow> ys = [])"

definition py_list :: "'a list option \<Rightarrow> 'a list" where
  "py_list xs = (case xs of None \<Rightarrow> [] | Some ys \<Rightarrow> ys)"

text \<open>
  \<open>update_energy_types\<close> (lines 409-451); the sums of the pie builder are passed on to
  it.
\<close>

definition update_energy_types ::
  "float_sums \<Rightarrow> energy_record list \<Rightarrow> int option \<Rightarrow> string list option \<Rightarrow>
     figure \<times> figure \<times> figure" where
  "update_energy_types arith energy_data selected_year selected_entities =
     (case selected_year of
        None \<Rightarrow>
          (let e = empty_fig ''Please select a year and at least one entity to display the data.''
           in (e, e, e))
      | Some y \<Rightarrow>
          if py_not selected_entities then
            (let e = empty_fig ''Please select a year and at least one entity to display the data.''
             in (e, e, e))
          else
            (let filtered_df = energy_types_filtered_df energy_data y (py_list selected_entities)
             in if filtered_df = [] then
                  (let e = empty_fig ''No data available for the selected year and entities.''
                   in (e, e, e))
                else
                  (let pie_fig = create_energy_pie_fig arith filtered_df y;
                       cumulative_data =
                         energy_types_cumulative_data energy_data y (py_list selected_entities);
                       area_fig = create_energy_area_fig cumulative_data True;
                       bar_fig = create_energy_bar_fig filtered_df
                   in (pie_fig, area_fig, bar_fig))))"

text \<open>
  \<open>update_search_section\<close> (lines 467-542). Its area table is built with
  \<open>.sum().reset_index().cumsum()\<close>: the year has become an ordinary column before the
  running sum is taken, so the running sum runs over the year column as well. The guard
  \<open>not regions or energy_type is None\<close> is written as a case split on the energy type
  followed by the test of the regions; both tests are pure, so the order is immaterial.
\<close>

definition search_pie_data :: "energy_record list \<Rightarrow> energy_type \<Rightarrow> (string \<times> real) list" where
  "search_pie_data filtered_df energy_type =
     (let (entities, cols) =
            groupby_sum Entity [(column_name energy_type, cell_of energy_type)] filtered_df
      in zip entities (concat (map snd cols)))"

definition search_area_data ::
  "energy_record list \<Rightarrow> energy_type \<Rightarrow> int list \<times> (string \<times> real list) list" where
  "search_area_data filtered_df energy_type =
     (let (years, cols) =
            groupby_sum Year [(column_name energy_type, cell_of energy_type)] filtered_df
      in (cumsum years, map (\<lambda>(name, vs). (name, cumsum vs)) cols))"

definition update_search_section ::
  "energy_record list \<Rightarrow> int list \<Rightarrow> string list option \<Rightarrow> energy_type option \<Rightarrow>
     py_exception + (figure \<times> figure \<times> figure \<times> figure)" where
  "update_search_section energy_data year_range regions energy_type =
     (case energy_type of
        None \<Rightarrow>
          (let e = empty_fig
                     ''Please select at least one region and an energy type to display the data.''
           in Inr (e, e, e, e))
      | Some t \<Rightarrow>
        if py_not regions then
          (let e = empty_fig
                     ''Please select at least one region and an energy type to display the data.''
           in Inr (e, e, e, e))
        else
        (case search_filtered_df energy_data year_range (py_list regions) of
           Inl exn \<Rightarrow> Inl exn
         | Inr filtered_df \<Rightarrow>
             if filtered_df = [] then
               (let e = empty_fig ''No data available for the selected filters.''
                in Inr (e, e, e, e))
             else
               (let line_fig =
                      \<lparr>chart = LineChart,
                       title = column_name t @ '' Consumption Trends'',
                       value_label = ''Electricity Consumption (TWh)'',
                       y_columns = [column_name t],
                       table = RecordTable filtered_df\<rparr>;
                    bar_fig =
                      \<lparr>chart = BarChart,
                       title = ''Energy Consumption by Region for '' @ column_name t,
                       value_label = ''Electricity Consumption (TWh)'',
                       y_columns = [column_name t],
                       table = RecordTable filtered_df\<rparr>;
                    pie_fig =
                      \<lparr>chart = PieChart,
                       title = ''Energy Consumption Distribution for '' @ column_name t,
                       value_label = ''Electricity Consumption (TWh)'',
                       y_columns = [column_name t],
                       table = SliceTable (search_pie_data filtered_df t)\<rparr>;
                    area_fig =
                      (let (years, cols) = search_area_data filtered_df t
                       in \<lparr>chart = AreaChart,
                           title = ''Cumulative '' @ column_name t @ '' Consumption Over Years'',
                           value_label = ''Cumulative Electricity Consumption (TWh)'',
                           y_columns = [column_name t],
                           table = YearTable years cols\<rparr>)
                in Inr (line_fig, bar_fig, pie_fig, area_fig))))"

subsection \<open>Loading the CSV\<close>

text \<open>
  \<open>pd.read_csv\<close> gives a table of named columns. A cell is an integer, a float, a
  string, a boolean or missing (NaN). The file system, the CSV parser, Python's
  \<open>int(s)\<close> on a string and \<open>str(x)\<close> on a float are the runtime the code runs on.
\<close>

datatype cell = CInt int | CFloat real | CStr string | CBool bool | CNaN

type_synonym frame = "(string \<times> cell list) list"

record runtime =
  files :: "string \<Rightarrow> string option"
  parse_csv :: "string \<Rightarrow> py_exception + frame"
  int_of_str :: "string \<Rightarrow> int option"
  str_of_float :: "real \<Rightarrow> string"

definition read_csv :: "runtime \<Rightarrow> string \<Rightarrow> py_exception + frame" where
  "read_csv rt filepath =
     (case files rt filepath of
        None \<Rightarrow> Inl (FileNotFoundError filepath)
      | Some content \<Rightarrow> parse_csv rt content)"

definition and_then :: "'e + 'a \<Rightarrow> ('a \<Rightarrow> 'e + 'b) \<Rightarrow> 'e + 'b" where
  "and_then r f = (case r of Inl e \<Rightarrow> Inl e | Inr v \<Rightarrow> f v)"

fun traverse :: "('a \<Rightarrow> 'e + 'b) \<Rightarrow> 'a list \<Rightarrow> 'e + 'b list" where
  "traverse f [] = Inr []"
| "traverse f (x # xs) =
     (case f x of
        Inl e \<Rightarrow> Inl e
      | Inr y \<Rightarrow> (case traverse f xs of Inl e \<Rightarrow> Inl e | Inr ys \<Rightarrow> Inr (y # ys)))"

text \<open>\<open>df.drop(columns=name)\<close>: a KeyError when no column has the name.\<close>

definition drop_columns :: "string \<Rightarrow> frame \<Rightarrow> py_exception + frame" where
  "drop_columns name df =
     (if name \<in> set (map fst df) then Inr (filter (\<lambda>(n, cells). n \<noteq> name) df)
      else Inl (KeyError name))"

definition energy_columns :: "string list" where
  "energy_columns =
     [''Electricity from wind - TWh'', ''Electricity from hydro - TWh'',
      ''Electricity from solar - TWh'', ''Other renewables including bioenergy - TWh'']"

text \<open>
  \<open>df[names] = df[names].fillna(0)\<close>: a KeyError when a column is absent. The zero is
  stored as the column holds its values: \<open>0.0\<close> in a numeric column, the integer
  \<open>0\<close> in a column of objects.
\<close>

fun is_object :: "cell \<Rightarrow> bool" where
  "is_object (CStr s) = True"
| "is_object (CBool b) = True"
| "is_object c = False"

definition fillna_zero :: "cell list \<Rightarrow> cell list" where
  "fillna_zero cells =
     (let zero = (if list_ex is_object cells then CInt 0 else CFloat 0)
      in map (\<lambda>c. if c = CNaN then zero else c) cells)"

definition fillna_columns :: "string list \<Rightarrow> frame \<Rightarrow> py_exception + frame" where
  "fillna_columns names df =
     (case filter (\<lambda>n. n \<notin> set (map fst df)) names of
        absent # others \<Rightarrow> Inl (KeyError absent)
      | [] \<Rightarrow>
          Inr (map (\<lambda>(n, cells). if n \<in> set names then (n, fillna_zero cells) else (n, cells)) df))"

text \<open>\<open>df[name] = f(df[name])\<close>: a KeyError when the column is absent.\<close>

definition assign_column ::
  "string \<Rightarrow> (cell list \<Rightarrow> py_exception + cell list) \<Rightarrow> frame \<Rightarrow> py_exception + frame" where
  "assign_column name f df =
     (case map_of df name of
        None \<Rightarrow> Inl (KeyError name)
      | Some cells \<Rightarrow>
          (case f cells of
             Inl e \<Rightarrow> Inl e
           | Inr cells' \<Rightarrow> Inr (map (\<lambda>(n, cs). if n = name then (n, cells') else (n, cs)) df)))"

text \<open>
  \<open>astype(int)\<close>: a float is truncated toward zero, a string goes through
  \<open>int(s)\<close>, and a missing value cannot be converted (a ValueError).
\<close>

fun astype_int_cell :: "runtime \<Rightarrow> cell \<Rightarrow> py_exception + cell" where
  "astype_int_cell rt (CInt i) = Inr (CInt i)"
| "astype_int_cell rt (CFloat x) = Inr (CInt (if x < 0 then \<lceil>x\<rceil> else \<lfloor>x\<rfloor>))"
| "astype_int_cell rt (CBool b) = Inr (CInt (if b then 1 else 0))"
| "astype_int_cell rt (CStr s) =
     (case int_of_str rt s of
        None \<Rightarrow> Inl (ValueError (''invalid literal for int() with base 10: '' @ s))
      | Some i \<Rightarrow> Inr (CInt i))"
| "astype_int_cell rt CNaN = Inl (ValueError ''cannot convert float NaN to integer'')"

definition astype_int :: "runtime \<Rightarrow> cell list \<Rightarrow> py_exception + cell list" where
  "astype_int rt cells = traverse (astype_int_cell rt) cells"

fun astype_str_cell :: "runtime \<Rightarrow> cell \<Rightarrow> cell" where
  "astype_str_cell rt (CStr s) = CStr s"
| "astype_str_cell rt (CInt i) = CStr (str_int i)"
| "astype_str_cell rt (CFloat x) = CStr (str_of_float rt x)"
| "astype_str_cell rt (CBool b) = CStr (if b then ''True'' else ''False'')"
| "astype_str_cell rt CNaN = CStr ''nan''"

definition astype_str :: "runtime \<Rightarrow> cell list \<Rightarrow> py_exception + cell list" where
  "astype_str rt cells = Inr (map (astype_str_cell rt) cells)"

text \<open>The body of the \<open>try\<close> block of \<open>load_data\<close> (lines 25-43).\<close>

definition load_data_body :: "runtime \<Rightarrow> string \<Rightarrow> py_exception + frame" where
  "load_data_body rt filepath =
     and_then (read_csv rt filepath) (\<lambda>df.
     and_then (drop_columns ''Code'' df) (\<lambda>df.
     and_then (fillna_columns energy_columns df) (\<lambda>df.
     and_then (assign_column ''Year'' (astype_int rt) df) (\<lambda>df.
     assign_column ''Entity'' (astype_str rt) df))))"

text \<open>\<open>load_data\<close> with its three \<open>except\<close> clauses (lines 45-50).\<close>

definition load_data :: "runtime \<Rightarrow> string \<Rightarrow> py_exception + frame" where
  "load_data rt filepath =
     (case load_data_body rt filepath of
        Inr df \<Rightarrow> Inr df
      | Inl (FileNotFoundError m) \<Rightarrow>
          Inl (FileNotFoundError
                 (''The data file '' @ [CHR 0x27] @ ''modern-renewable-prod.csv'' @ [CHR 0x27] @
                  '' was not found.''))
      | Inl (ParserError m) \<Rightarrow>
          Inl (ValueError ''Error parsing the CSV file. Please check the file format.'')
      | Inl e \<Rightarrow> Inl e)"

text \<open>
  The module-level \<open>try\<close> (lines 53-64): any exception of \<open>load_data\<close> replaces the
  whole layout by a static alert that shows it.
\<close>

datatype app_layout = ErrorAlert py_exception | Dashboard frame

definition initial_layout :: "runtime \<Rightarrow> app_layout" where
  "initial_layout rt =
     (case load_data rt ''modern-renewable-prod.csv'' of
        Inl e \<Rightarrow> ErrorAlert e
      | Inr df \<Rightarrow> Dashboard df)"

subsection \<open>ISO codes\<close>

text \<open>
  \<open>get_iso_alpha3\<close> (lines 92-96). The lookup of pycountry is a parameter: it returns the
  alpha-3 code of the country found, or raises. \<open>except LookupError\<close> also catches the
  subclasses KeyError and IndexError.
\<close>

fun is_LookupError :: "py_exception \<Rightarrow> bool" where
  "is_LookupError (LookupError m) = True"
| "is_LookupError (KeyError m) = True"
| "is_LookupError (IndexError m) = True"
| "is_LookupError e = False"

definition get_iso_alpha3 ::
  "(string \<Rightarrow> py_exception + string) \<Rightarrow> string \<Rightarrow> py_exception + string option" where
  "get_iso_alpha3 lookup entity_name =
     (case lookup entity_name of
        Inr alpha_3 \<Rightarrow> Inr (Some alpha_3)
      | Inl e \<Rightarrow> if is_LookupError e then Inr None else Inl e)"

text \<open>
  Line 99 applies the helper to the entity of every row and stores the result as the
  column \<open>ISO_A3\<close>; line 102 drops the rows where it is missing. The table that results
  is the \<open>energy_data\<close> every callback reads.
\<close>

definition with_iso :: "loaded_record \<Rightarrow> string option \<Rightarrow> energy_record" where
  "with_iso r c =
     \<lparr>Entity = Entity r, Year = Year r, wind_twh = wind_twh r, hydro_twh = hydro_twh r,
      solar_twh = solar_twh r, other_twh = other_twh r, ISO_A3 = c\<rparr>"

definition add_ISO_A3 ::
  "(string \<Rightarrow> py_exception + string) \<Rightarrow> loaded_record list \<Rightarrow> py_exception + energy_record list" where
  "add_ISO_A3 lookup loaded =
     traverse (\<lambda>r. case get_iso_alpha3 lookup (Entity r) of
                     Inl e \<Rightarrow> Inl e
                   | Inr c \<Rightarrow> Inr (with_iso r c)) loaded"

definition dropna_ISO_A3 :: "energy_record list \<Rightarrow> energy_record list" where
  "dropna_ISO_A3 rows = filter (\<lambda>r. ISO_A3 r \<noteq> None) rows"

definition working_data ::
  "(string \<Rightarrow> py_exception + string) \<Rightarrow> loaded_record list \<Rightarrow> py_exception + energy_record list" where
  "working_data lookup loaded =
     (case add_ISO_A3 lookup loaded of
        Inl e \<Rightarrow> Inl e
      | Inr rows \<Rightarrow> Inr (dropna_ISO_A3 rows))"

subsection \<open>The rows of the specification's scenario\<close>

definition tunisia_2020 :: energy_record where
  "tunisia_2020 =
     \<lparr>Entity = ''Tunisia'', Year = 2020, wind_twh = 1, hydro_twh = 0, solar_twh = 2,
      other_twh = 0, ISO_A3 = Some ''TUN''\<rparr>"

definition tunisia_2021 :: energy_record where
  "tunisia_2021 =
     \<lparr>Entity = ''Tunisia'', Year = 2021, wind_twh = 3, hydro_twh = 0, solar_twh = 0,
      other_twh = 0, ISO_A3 = Some ''TUN''\<rparr>"

definition loaded_tunisia_2020 :: loaded_record where
  "loaded_tunisia_2020 =
     \<lparr>Entity = ''Tunisia'', Year = 2020, wind_twh = 1, hydro_twh = 0, solar_twh = 2,
      other_twh = 0\<rparr>"

definition loaded_world_2020 :: loaded_record where
  "loaded_world_2020 =
     \<lparr>Entity = ''World'', Year = 2020, wind_twh = 1590, hydro_twh = 4345, solar_twh = 850,
      other_twh = 700\<rparr>"

text \<open>A lookup that knows Tunisia only.\<close>

definition tunisia_only :: "string \<Rightarrow> py_exception + string" where
  "tunisia_only name =
     (if name = ''Tunisia'' then Inr ''TUN''
      else Inl (LookupError (''Could not find a record for '' @ name)))"

text \<open>
  Three rows of 2021 whose wind values are the doubles nearest to 0.3, 0.2 and 0.1, in an
  order that is not the order of the entity names.
\<close>

definition tenths_2021 :: "energy_record list" where
  "tenths_2021 =
     [\<lparr>Entity = ''Tunisia'', Year = 2021, wind_twh = 5404319552844595 / 18014398509481984,
       hydro_twh = 0, solar_twh = 0, other_twh = 0, ISO_A3 = Some ''TUN''\<rparr>,
      \<lparr>Entity = ''Morocco'', Year = 2021, wind_twh = 3602879701896397 / 18014398509481984,
       hydro_twh = 0, solar_twh = 0, other_twh = 0, ISO_A3 = Some ''MAR''\<rparr>,
      \<lparr>Entity = ''Algeria'', Year = 2021, wind_twh = 3602879701896397 / 36028797018963968,
       hydro_twh = 0, solar_twh = 0, other_twh = 0, ISO_A3 = Some ''DZA''\<rparr>]"

subsection \<open>An example file\<close>

text \<open>
  A table as \<open>read_csv\<close> may return it, the table \<open>load_data\<close> makes of it, and a
  runtime whose only file is the data file of the dashboard.
\<close>

definition example_raw :: frame where
  "example_raw =
     [(''Entity'', [CStr ''Tunisia'', CStr ''World'']),
      (''Code'', [CStr ''TUN'', CNaN]),
      (''Year'', [CInt 2020, CFloat 2020]),
      (''Electricity from wind - TWh'', [CFloat 1, CNaN]),
      (''Electricity from hydro - TWh'', [CNaN, CFloat 4345]),
      (''Electricity from solar - TWh'', [CFloat 2, CFloat 850]),
      (''Other renewables including bioenergy - TWh'', [CNaN, CNaN])]"

definition example_runtime :: "(string \<Rightarrow> py_exception + frame) \<Rightarrow> runtime" where
  "example_runtime parser =
     \<lparr>files = (\<lambda>path. if path = ''modern-renewable-prod.csv'' then Some ''Entity,Code,Year''
                      else None),
      parse_csv = parser,
      int_of_str = (\<lambda>s. None),
      str_of_float = (\<lambda>x. [])\<rparr>"

definition example_loaded :: frame where
  "example_loaded =
     [(''Entity'', [CStr ''Tunisia'', CStr ''World'']),
      (''Year'', [CInt 2020, CInt 2020]),
      (''Electricity from wind - TWh'', [CFloat 1, CFloat 0]),
      (''Electricity from hydro - TWh'', [CFloat 0, CFloat 4345]),
      (''Electricity from solar - TWh'', [CFloat 2, CFloat 850]),
      (''Other renewables including bioenergy - TWh'', [CFloat 0, CFloat 0])]"

section \<open>Facts about masks\<close>

lemma mask_and_map:
  "mask_and (map P xs) (map Q xs) = map (\<lambda>x. P x \<and> Q x) xs"
  by (induction xs) (simp_all add: mask_and_def)

lemma boolean_index_map:
  "boolean_index xs (map P xs) = filter P xs"
  by (induction xs) (simp_all add: boolean_index_def)

lemma energy_types_filtered_df_filter:
  "energy_types_filtered_df d y es = filter (\<lambda>r. Year r = y \<and> Entity r \<in> set es) d"
  by (simp add: energy_types_filtered_df_def series_eq_def isin_def map_map comp_def
      mask_and_map boolean_index_map)

lemma energy_types_cumulative_data_filter:
  "energy_types_cumulative_data d y es = filter (\<lambda>r. Year r \<le> y \<and> Entity r \<in> set es) d"
  by (simp add: energy_types_cumulative_data_def series_le_def isin_def map_map comp_def
      mask_and_map boolean_index_map)

lemma search_filtered_df_filter:
  "search_filtered_df d [a, b] rs =
     Inr (filter (\<lambda>r. a \<le> Year r \<and> Year r \<le> b \<and> Entity r \<in> set rs) d)"
  by (simp add: search_filtered_df_def py_index_def series_ge_def series_le_def isin_def
      map_map comp_def mask_and_map boolean_index_map conj_assoc)


section \<open>Facts about grouping and running sums\<close>

lemma sum_list_filter_disj:
  "(\<And>r. r \<in> set rows \<Longrightarrow> \<not> (P r \<and> Q r)) \<Longrightarrow>
   sum_list (map c (filter (\<lambda>r. P r \<or> Q r) rows)) =
   sum_list (map c (filter P rows)) + sum_list (map (c::'r \<Rightarrow> real) (filter Q rows))"
  by (induction rows) auto

lemma group_sums_total:
  "distinct ks \<Longrightarrow>
   sum_list (map (group_sum key c rows) ks) =
   sum_list (map c (filter (\<lambda>r. key r \<in> set ks) rows))"
proof (induction ks)
  case Nil
  then show ?case by simp
next
  case (Cons k ks)
  have "sum_list (map c (filter (\<lambda>r. key r = k \<or> key r \<in> set ks) rows)) =
        sum_list (map c (filter (\<lambda>r. key r = k) rows)) +
        sum_list (map c (filter (\<lambda>r. key r \<in> set ks) rows))"
    using Cons.prems by (intro sum_list_filter_disj) auto
  with Cons show ?case by (simp add: group_sum_def)
qed

lemma set_group_keys: "set (group_keys key rows) = key ` set rows"
  by (simp add: group_keys_def)

lemma distinct_group_keys: "distinct (group_keys key rows)"
  by (simp add: group_keys_def)

lemma sorted_group_keys: "sorted (group_keys key rows)"
  by (simp add: group_keys_def)

lemma group_sums_all:
  "sum_list (map (group_sum key c rows) (group_keys key rows)) = sum_list (map c rows)"
  by (simp add: group_sums_total distinct_group_keys set_group_keys)

lemma length_cumsum_from: "length (cumsum_from acc xs) = length xs"
  by (induction xs arbitrary: acc) simp_all

lemma cumsum_from_nth:
  "i < length xs \<Longrightarrow> cumsum_from acc xs ! i = acc + sum_list (take (Suc i) xs)"
proof (induction xs arbitrary: acc i)
  case Nil
  then show ?case by simp
next
  case (Cons x xs)
  show ?case
  proof (cases i)
    case 0
    then show ?thesis by simp
  next
    case (Suc j)
    with Cons.prems have "j < length xs" by simp
    from Cons.IH [OF this, of "acc + x"] Suc show ?thesis
      by (simp add: add.assoc)
  qed
qed

lemma length_cumsum: "length (cumsum xs) = length xs"
  by (simp add: cumsum_def length_cumsum_from)

lemma cumsum_nth: "i < length xs \<Longrightarrow> cumsum xs ! i = sum_list (take (Suc i) xs)"
  by (simp add: cumsum_def cumsum_from_nth)

lemma sorted_distinct_take_set:
  fixes ks :: "'k::linorder list"
  assumes "sorted ks" "distinct ks" "i < length ks"
  shows "set (take (Suc i) ks) = {k \<in> set ks. k \<le> ks ! i}"
proof (rule set_eqI, rule iffI)
  fix k assume "k \<in> set (take (Suc i) ks)"
  then obtain j where j: "j < Suc i" "j < length ks" "k = ks ! j"
    by (auto simp: in_set_conv_nth)
  then have "ks ! j \<le> ks ! i"
    using assms by (intro sorted_nth_mono) auto
  with j show "k \<in> {k \<in> set ks. k \<le> ks ! i}" by auto
next
  fix k assume "k \<in> {k \<in> set ks. k \<le> ks ! i}"
  then obtain j where j: "j < length ks" "k = ks ! j" "ks ! j \<le> ks ! i"
    by (auto simp: in_set_conv_nth)
  have "j \<le> i"
  proof (rule ccontr)
    assume "\<not> j \<le> i"
    then have "i < j" by simp
    then have "ks ! i \<le> ks ! j" using assms j by (intro sorted_nth_mono) auto
    with j have "ks ! i = ks ! j" by simp
    with assms j \<open>i < j\<close> show False by (auto simp: distinct_conv_nth)
  qed
  with j show "k \<in> set (take (Suc i) ks)"
    by (auto simp: in_set_conv_nth)
qed

lemma running_group_sum:
  fixes key :: "'r \<Rightarrow> 'k::linorder"
  assumes "i < length (group_keys key rows)"
  shows "cumsum (map (group_sum key c rows) (group_keys key rows)) ! i =
         sum_list (map c (filter (\<lambda>r. key r \<le> group_keys key rows ! i) rows))"
proof -
  let ?ks = "group_keys key rows"
  have "cumsum (map (group_sum key c rows) ?ks) ! i =
        sum_list (map (group_sum key c rows) (take (Suc i) ?ks))"
    using assms by (simp add: cumsum_nth take_map)
  also have "\<dots> = sum_list (map c (filter (\<lambda>r. key r \<in> set (take (Suc i) ?ks)) rows))"
    by (rule group_sums_total) (simp add: distinct_group_keys)
  also have "set (take (Suc i) ?ks) = {k \<in> set ?ks. k \<le> ?ks ! i}"
    using assms by (intro sorted_distinct_take_set sorted_group_keys distinct_group_keys)
  also have "filter (\<lambda>r. key r \<in> {k \<in> set ?ks. k \<le> ?ks ! i}) rows =
             filter (\<lambda>r. key r \<le> ?ks ! i) rows"
    by (rule filter_cong) (auto simp: set_group_keys)
  finally show ?thesis .
qed

lemma cell_of_columns:
  "cell_of WindPower = wind_twh" "cell_of SolarPower = solar_twh"
  "cell_of HydroPower = hydro_twh" "cell_of OtherRenewables = other_twh"
  by (simp_all add: fun_eq_iff)

text \<open>The pie table, for any routines and for the exact ones.\<close>

lemma pie_sum_slices:
  "pie_sum arith data =
     map (\<lambda>t. (column_name t,
                 frame_sum_of arith
                   (map (\<lambda>e. group_sum_of arith (map (cell_of t) (filter (\<lambda>r. Entity r = e) data)))
                      (sort (remdups (map Entity data))))))
       [WindPower, SolarPower, HydroPower, OtherRenewables]"
  by (simp add: pie_sum_def pie_data_def groupby_agg_def group_keys_def energy_type_columns_def
      energy_types_def Let_def del: column_name.simps)

lemma pie_sum_exact:
  "pie_sum exact_sums data =
     [(column_name WindPower, sum_list (map wind_twh data)),
      (column_name SolarPower, sum_list (map solar_twh data)),
      (column_name HydroPower, sum_list (map hydro_twh data)),
      (column_name OtherRenewables, sum_list (map other_twh data))]"
proof -
  have g: "sum_list (map (\<lambda>e. sum_list (map c (filter (\<lambda>r. Entity r = e) data)))
                      (sort (remdups (map Entity data)))) = sum_list (map c data)"
    for c :: "energy_record \<Rightarrow> real"
  proof -
    have "group_sum Entity c data = (\<lambda>e. sum_list (map c (filter (\<lambda>r. Entity r = e) data)))"
      by (simp add: fun_eq_iff group_sum_def)
    with group_sums_all [of Entity c data] show ?thesis by (simp add: group_keys_def)
  qed
  show ?thesis
    by (simp add: pie_sum_slices exact_sums_def g cell_of_columns del: column_name.simps)
qed

lemma update_energy_types_charts:
  assumes "entities \<noteq> []" "energy_types_filtered_df energy_data y entities \<noteq> []"
  shows "update_energy_types arith energy_data (Some y) (Some entities) =
           (create_energy_pie_fig arith (energy_types_filtered_df energy_data y entities) y,
            create_energy_area_fig (energy_types_cumulative_data energy_data y entities) True,
            create_energy_bar_fig (energy_types_filtered_df energy_data y entities))"
  using assms by (simp add: update_energy_types_def py_not_def py_list_def Let_def)

lemma area_data_years: "fst (area_data data cumulative) = group_keys Year data"
  by (simp add: area_data_def groupby_sum_def Let_def)

lemma area_data_cumulative_of_annual:
  "snd (area_data data True) = map (\<lambda>(name, vs). (name, cumsum vs)) (snd (area_data data False))"
  by (simp add: area_data_def groupby_sum_def Let_def)

lemma area_data_columns:
  "snd (area_data data True) =
     map (\<lambda>t. (column_name t, cumsum (map (group_sum Year (cell_of t) data) (group_keys Year data))))
       [WindPower, SolarPower, HydroPower, OtherRenewables]"
  "snd (area_data data False) =
     map (\<lambda>t. (column_name t, map (group_sum Year (cell_of t) data) (group_keys Year data)))
       [WindPower, SolarPower, HydroPower, OtherRenewables]"
  by (simp_all add: area_data_def groupby_sum_def Let_def energy_type_columns_def energy_types_def
      del: column_name.simps)

text \<open>
  The cumulative table of \<open>create_energy_area_fig\<close>: at the \<open>i\<close>-th year the value of
  a column is the sum of the annual values of that column up to that year, which is the
  sum of the column over all rows of the input with a year up to that year.
\<close>

lemma area_data_cumulative_at:
  assumes "i < length (group_keys Year data)"
    and "(name, vs) \<in> set (snd (area_data data True))"
  shows "\<exists>t annual. name = column_name t \<and> (name, annual) \<in> set (snd (area_data data False))
           \<and> vs ! i = sum_list (take (Suc i) annual)
           \<and> vs ! i = sum_list (map (cell_of t)
                         (filter (\<lambda>r. Year r \<le> group_keys Year data ! i) data))"
proof -
  from assms(2) obtain t where t: "name = column_name t"
    "vs = cumsum (map (group_sum Year (cell_of t) data) (group_keys Year data))"
    unfolding area_data_columns set_map by blast
  let ?annual = "map (group_sum Year (cell_of t) data) (group_keys Year data)"
  have "(name, ?annual) \<in> set (snd (area_data data False))"
    unfolding area_data_columns using t(1) by (cases t) simp_all
  moreover have "vs ! i = sum_list (take (Suc i) ?annual)"
    using assms(1) t(2) by (simp add: cumsum_nth)
  moreover have "vs ! i = sum_list (map (cell_of t)
                         (filter (\<lambda>r. Year r \<le> group_keys Year data ! i) data))"
    using assms(1) t(2) by (simp add: running_group_sum)
  ultimately show ?thesis using t(1) by blast
qed

text \<open>The rows that the choropleth reads.\<close>

lemma series_max_Max: "xs \<noteq> [] \<Longrightarrow> series_max xs = Some (Max (set xs))"
proof (induction xs)
  case Nil
  then show ?case by simp
next
  case (Cons x xs)
  show ?case
  proof (cases "xs = []")
    case True
    then show ?thesis by simp
  next
    case False
    with Cons.IH have "series_max xs = Some (Max (set xs))" by simp
    with False show ?thesis by simp
  qed
qed

lemma latest_rows_filter:
  "data \<noteq> [] \<Longrightarrow> latest_rows data = filter (\<lambda>r. Year r = Max (Year ` set data)) data"
  by (simp add: latest_rows_def latest_year_def series_max_Max series_eq_def boolean_index_map
      map_map comp_def)

lemma set_map_filter_entity_iso:
  "set (List.map_filter entity_iso rows) =
     {(Entity r, a3) | r a3. r \<in> set rows \<and> ISO_A3 r = Some a3}"
  by (auto simp: List.map_filter_def entity_iso_def split: option.splits) force

lemma entity_iso_Some:
  "entity_iso r = Some (e, a3) \<longleftrightarrow> Entity r = e \<and> ISO_A3 r = Some a3"
  by (auto simp: entity_iso_def split: option.splits)

text \<open>The ISO codes and the rows that each view reads.\<close>

lemma traverse_all_Inr:
  "(\<And>x. x \<in> set xs \<Longrightarrow> f x = Inr (g x)) \<Longrightarrow> traverse f xs = Inr (map g xs)"
  by (induction xs) simp_all

lemma get_iso_alpha3_total:
  assumes "\<forall>n e. lookup n = Inl e \<longrightarrow> is_LookupError e"
  shows "get_iso_alpha3 lookup n = Inr (case lookup n of Inl e \<Rightarrow> None | Inr a3 \<Rightarrow> Some a3)"
  using assms by (auto simp: get_iso_alpha3_def split: sum.splits)

lemma working_data_rows:
  assumes "\<forall>n e. lookup n = Inl e \<longrightarrow> is_LookupError e"
  shows "working_data lookup loaded =
           Inr (filter (\<lambda>r. ISO_A3 r \<noteq> None)
                  (map (\<lambda>r. with_iso r (case lookup (Entity r) of Inl e \<Rightarrow> None | Inr a3 \<Rightarrow> Some a3))
                     loaded))"
proof -
  have "add_ISO_A3 lookup loaded =
          Inr (map (\<lambda>r. with_iso r (case lookup (Entity r) of Inl e \<Rightarrow> None | Inr a3 \<Rightarrow> Some a3))
                 loaded)"
    unfolding add_ISO_A3_def
    by (rule traverse_all_Inr) (simp add: get_iso_alpha3_total [OF assms])
  then show ?thesis by (simp add: working_data_def dropna_ISO_A3_def)
qed

lemma with_iso_fields [simp]:
  "Entity (with_iso r c) = Entity r" "Year (with_iso r c) = Year r" "ISO_A3 (with_iso r c) = c"
  by (simp_all add: with_iso_def)

lemma set_boolean_index: "set (boolean_index xs flags) \<subseteq> set xs"
  by (auto simp: boolean_index_def dest: set_zip_leftD)

lemma set_search_filtered_df:
  "search_filtered_df d year_range regions = Inr f \<Longrightarrow> set f \<subseteq> set d"
  using set_boolean_index [of d]
  by (auto simp: search_filtered_df_def split: sum.splits)

lemma set_latest_rows: "set (latest_rows d) \<subseteq> set d"
  by (auto simp: latest_rows_def boolean_index_map series_eq_def map_map comp_def
      split: option.splits)

lemma map_data_entities: "fst ` set (map_data d t) \<subseteq> Entity ` set d"
proof
  fix e assume "e \<in> fst ` set (map_data d t)"
  then obtain k where "k \<in> set (List.map_filter entity_iso (latest_rows d))" "e = fst k"
    by (auto simp: map_data_def Let_def)
  then obtain r where "r \<in> set (latest_rows d)" "Entity r = e"
    by (auto simp: set_map_filter_entity_iso)
  with set_latest_rows show "e \<in> Entity ` set d" by blast
qed

text \<open>The steps of \<open>load_data\<close>.\<close>

lemma drop_columns_Inr:
  "drop_columns n df = Inr d \<longleftrightarrow> n \<in> set (map fst df) \<and> d = filter (\<lambda>(m, c). m \<noteq> n) df"
  by (auto simp: drop_columns_def)

lemma fillna_columns_Inr:
  "fillna_columns ns df = Inr d \<longleftrightarrow>
     set ns \<subseteq> set (map fst df) \<and>
     d = map (\<lambda>(n, cells). if n \<in> set ns then (n, fillna_zero cells) else (n, cells)) df"
proof -
  have "filter (\<lambda>n. n \<notin> set (map fst df)) ns = [] \<longleftrightarrow> set ns \<subseteq> set (map fst df)"
    by (auto simp: filter_empty_conv)
  then show ?thesis
    by (cases "filter (\<lambda>n. n \<notin> set (map fst df)) ns") (auto simp: fillna_columns_def)
qed

lemma assign_column_Inr:
  "assign_column n f df = Inr d \<longleftrightarrow>
     (\<exists>cells cells'. map_of df n = Some cells \<and> f cells = Inr cells' \<and>
        d = map (\<lambda>(m, cs). if m = n then (m, cells') else (m, cs)) df)"
  by (auto simp: assign_column_def split: option.splits sum.splits)

lemma names_map_cond:
  "map fst (map (\<lambda>(n, c). if P n then (n, f c) else (n, c)) df) = map fst df"
  by (induction df) auto

lemma map_of_map_cond:
  "map_of (map (\<lambda>(n, c). if P n then (n, f c) else (n, c)) df) k =
     map_option (\<lambda>c. if P k then f c else c) (map_of df k)"
  by (induction df) auto

lemma map_of_drop:
  "k \<noteq> n \<Longrightarrow> map_of (filter (\<lambda>(m, c). m \<noteq> n) df) k = map_of df k"
  by (induction df) auto

lemma names_drop:
  "map fst (filter (\<lambda>(m, c). m \<noteq> n) df) = filter (\<lambda>m. m \<noteq> n) (map fst df)"
  by (induction df) auto

lemma traverse_Inr:
  "traverse f xs = Inr ys \<Longrightarrow> list_all2 (\<lambda>x y. f x = Inr y) xs ys"
  by (induction xs arbitrary: ys) (auto split: sum.splits)

lemma astype_int_cell_Inr:
  "astype_int_cell rt c = Inr c' \<Longrightarrow> \<exists>i. c' = CInt i"
  by (cases c) (auto split: option.splits)

lemma astype_int_cell_accepts:
  "(\<exists>c'. astype_int_cell rt c = Inr c') \<longleftrightarrow>
     c \<noteq> CNaN \<and> (\<forall>s. c = CStr s \<longrightarrow> int_of_str rt s \<noteq> None)"
  by (cases c) (auto split: option.splits)

lemma astype_int_Inr:
  assumes "astype_int rt cells = Inr ys"
  shows "\<forall>c \<in> set ys. \<exists>i. c = CInt i"
proof
  fix c assume "c \<in> set ys"
  moreover from assms have "list_all2 (\<lambda>x y. astype_int_cell rt x = Inr y) cells ys"
    unfolding astype_int_def by (rule traverse_Inr)
  ultimately obtain x where "astype_int_cell rt x = Inr c"
    by (auto simp: list_all2_conv_all_nth in_set_conv_nth)
  then show "\<exists>i. c = CInt i" by (rule astype_int_cell_Inr)
qed

lemma astype_int_accepts:
  "(\<exists>ys. astype_int rt cells = Inr ys) \<longleftrightarrow>
     (\<forall>c \<in> set cells. c \<noteq> CNaN \<and> (\<forall>s. c = CStr s \<longrightarrow> int_of_str rt s \<noteq> None))"
proof (induction cells)
  case Nil
  then show ?case by (simp add: astype_int_def)
next
  case (Cons c cells)
  have "(\<exists>ys. astype_int rt (c # cells) = Inr ys) \<longleftrightarrow>
        (\<exists>c'. astype_int_cell rt c = Inr c') \<and> (\<exists>ys. astype_int rt cells = Inr ys)"
    by (auto simp: astype_int_def split: sum.splits)
  with Cons.IH show ?case by (simp add: astype_int_cell_accepts)
qed

lemma astype_str_strings: "astype_str rt cells = Inr ys \<Longrightarrow> \<forall>c \<in> set ys. \<exists>s. c = CStr s"
proof -
  have "\<exists>s. astype_str_cell rt c = CStr s" for c by (cases c) simp_all
  then show "astype_str rt cells = Inr ys \<Longrightarrow> \<forall>c \<in> set ys. \<exists>s. c = CStr s"
    by (auto simp: astype_str_def)
qed

lemma fillna_zero_cells:
  "length (fillna_zero cells) = length cells"
  "CNaN \<notin> set (fillna_zero cells)"
  "i < length cells \<Longrightarrow>
     fillna_zero cells ! i = cells ! i \<or>
     (cells ! i = CNaN \<and> (fillna_zero cells ! i = CFloat 0 \<or> fillna_zero cells ! i = CInt 0))"
  by (auto simp: fillna_zero_def Let_def)

lemma load_data_body_Inr:
  "load_data_body rt p = Inr df \<longleftrightarrow>
     (\<exists>raw d1 d2 d3. read_csv rt p = Inr raw \<and> drop_columns ''Code'' raw = Inr d1 \<and>
        fillna_columns energy_columns d1 = Inr d2 \<and>
        assign_column ''Year'' (astype_int rt) d2 = Inr d3 \<and>
        assign_column ''Entity'' (astype_str rt) d3 = Inr df)"
  by (auto simp: load_data_body_def and_then_def split: sum.splits)

lemma load_data_Inr: "load_data rt p = Inr df \<longleftrightarrow> load_data_body rt p = Inr df"
  by (auto simp: load_data_def split: sum.splits py_exception.splits)

lemma names_assign:
  "map fst (map (\<lambda>(m, cs). if m = n then (m, v) else (m, cs)) df) = map fst df"
  by (induction df) auto

lemma map_of_assign:
  "map_of (map (\<lambda>(m, cs). if m = n then (m, v) else (m, cs)) df) k =
     (if k = n then map_option (\<lambda>c. v) (map_of df k) else map_of df k)"
  by (induction df) auto

lemma energy_columns_names:
  "name \<in> set energy_columns \<Longrightarrow> name \<noteq> ''Code'' \<and> name \<noteq> ''Year'' \<and> name \<noteq> ''Entity''"
  by (auto simp: energy_columns_def)

lemma map_of_present: "n \<in> set (map fst df) \<Longrightarrow> \<exists>cells. map_of df n = Some cells"
  by (induction df) auto

lemma read_csv_Inr:
  "read_csv rt p = Inr raw \<longleftrightarrow> (\<exists>content. files rt p = Some content \<and> parse_csv rt content = Inr raw)"
  by (auto simp: read_csv_def split: option.splits)

lemma pipeline_accepts:
  assumes "code \<notin> set ens" "yr \<notin> set ens" "yr \<noteq> code" "ent \<noteq> code" "ent \<noteq> yr" "ent \<notin> set ens"
  shows "(\<exists>df. and_then (drop_columns code raw) (\<lambda>df.
               and_then (fillna_columns ens df) (\<lambda>df.
               and_then (assign_column yr fy df) (\<lambda>df. assign_column ent fe df))) = Inr df) \<longleftrightarrow>
         code \<in> set (map fst raw) \<and> set ens \<subseteq> set (map fst raw) \<and>
         (\<exists>cells ys. map_of raw yr = Some cells \<and> fy cells = Inr ys) \<and>
         (\<exists>cells es. map_of raw ent = Some cells \<and> fe cells = Inr es)"
proof -
  let ?d1 = "filter (\<lambda>(m, c). m \<noteq> code) raw"
  let ?d2 = "map (\<lambda>(n, cells). if n \<in> set ens then (n, fillna_zero cells) else (n, cells)) ?d1"
  let ?d3 = "\<lambda>ys. map (\<lambda>(m, cs). if m = yr then (m, ys) else (m, cs)) ?d2"
  have chain: "(\<exists>df. and_then (drop_columns code raw) (\<lambda>df.
               and_then (fillna_columns ens df) (\<lambda>df.
               and_then (assign_column yr fy df) (\<lambda>df. assign_column ent fe df))) = Inr df) \<longleftrightarrow>
        (\<exists>d1 d2 d3 df. drop_columns code raw = Inr d1 \<and> fillna_columns ens d1 = Inr d2 \<and>
           assign_column yr fy d2 = Inr d3 \<and> assign_column ent fe d3 = Inr df)"
    by (auto simp: and_then_def split: sum.splits)
  have names1: "set ens \<subseteq> set (map fst ?d1) \<longleftrightarrow> set ens \<subseteq> set (map fst raw)"
    using assms(1) by (auto simp: names_drop)
  have yr2: "map_of ?d2 yr = map_of raw yr"
    using assms(2,3) by (simp add: map_of_map_cond map_of_drop option.map_ident)
  have ent2: "map_of ?d2 ent = map_of raw ent"
    using assms(4,6) by (simp add: map_of_map_cond map_of_drop option.map_ident)
  have ent3: "map_of (?d3 ys) ent = map_of raw ent" for ys
    using assms(5) ent2 by (simp only: map_of_assign if_False)
  have "(\<exists>d1 d2 d3 df. drop_columns code raw = Inr d1 \<and> fillna_columns ens d1 = Inr d2 \<and>
           assign_column yr fy d2 = Inr d3 \<and> assign_column ent fe d3 = Inr df) \<longleftrightarrow>
        code \<in> set (map fst raw) \<and> set ens \<subseteq> set (map fst ?d1) \<and>
         (\<exists>cells ys. map_of ?d2 yr = Some cells \<and> fy cells = Inr ys \<and>
            (\<exists>cells2 es. map_of (?d3 ys) ent = Some cells2 \<and> fe cells2 = Inr es))"
    unfolding drop_columns_Inr fillna_columns_Inr assign_column_Inr by blast
  also have "\<dots> \<longleftrightarrow> code \<in> set (map fst raw) \<and> set ens \<subseteq> set (map fst raw) \<and>
         (\<exists>cells ys. map_of raw yr = Some cells \<and> fy cells = Inr ys) \<and>
         (\<exists>cells es. map_of raw ent = Some cells \<and> fe cells = Inr es)"
    unfolding names1 yr2 ent3 by blast
  finally show ?thesis unfolding chain .
qed

lemma astype_str_accepts: "\<exists>es. astype_str rt cells = Inr es"
  by (simp add: astype_str_def)

lemma load_data_body_accepts:
  "(\<exists>df. load_data_body rt filepath = Inr df) \<longleftrightarrow>
     (\<exists>content raw. files rt filepath = Some content \<and> parse_csv rt content = Inr raw
        \<and> ''Code'' \<in> set (map fst raw) \<and> set energy_columns \<subseteq> set (map fst raw)
        \<and> (\<exists>years. map_of raw ''Year'' = Some years
              \<and> (\<forall>c \<in> set years. c \<noteq> CNaN \<and> (\<forall>s. c = CStr s \<longrightarrow> int_of_str rt s \<noteq> None)))
        \<and> ''Entity'' \<in> set (map fst raw))"
proof -
  have n: "''Code'' \<notin> set energy_columns" "''Year'' \<notin> set energy_columns"
    "''Year'' \<noteq> ''Code''" "''Entity'' \<noteq> ''Code''" "''Entity'' \<noteq> ''Year''"
    "''Entity'' \<notin> set energy_columns"
    by (simp_all add: energy_columns_def)
  have p: "(\<exists>df. and_then (drop_columns ''Code'' raw) (\<lambda>df.
               and_then (fillna_columns energy_columns df) (\<lambda>df.
               and_then (assign_column ''Year'' (astype_int rt) df)
                 (\<lambda>df. assign_column ''Entity'' (astype_str rt) df))) = Inr df) \<longleftrightarrow>
         ''Code'' \<in> set (map fst raw) \<and> set energy_columns \<subseteq> set (map fst raw) \<and>
         (\<exists>years. map_of raw ''Year'' = Some years
              \<and> (\<forall>c \<in> set years. c \<noteq> CNaN \<and> (\<forall>s. c = CStr s \<longrightarrow> int_of_str rt s \<noteq> None))) \<and>
         ''Entity'' \<in> set (map fst raw)" for raw
  proof -
    have e: "(\<exists>cells es. map_of raw ''Entity'' = Some cells \<and> astype_str rt cells = Inr es) \<longleftrightarrow>
             ''Entity'' \<in> set (map fst raw)"
      using astype_str_accepts [of rt] map_of_eq_None_iff [of raw "''Entity''"]
      by (metis not_Some_eq set_map)
    have y: "(\<exists>cells ys. map_of raw ''Year'' = Some cells \<and> astype_int rt cells = Inr ys) \<longleftrightarrow>
             (\<exists>years. map_of raw ''Year'' = Some years
              \<and> (\<forall>c \<in> set years. c \<noteq> CNaN \<and> (\<forall>s. c = CStr s \<longrightarrow> int_of_str rt s \<noteq> None)))"
      unfolding astype_int_accepts [symmetric] by (simp only: ex_simps)
    show ?thesis
      unfolding pipeline_accepts [OF n] e y by (rule refl)
  qed
  have "(\<exists>df. load_data_body rt filepath = Inr df) \<longleftrightarrow>
        (\<exists>raw. read_csv rt filepath = Inr raw \<and>
           (\<exists>df. and_then (drop_columns ''Code'' raw) (\<lambda>df.
               and_then (fillna_columns energy_columns df) (\<lambda>df.
               and_then (assign_column ''Year'' (astype_int rt) df)
                 (\<lambda>df. assign_column ''Entity'' (astype_str rt) df))) = Inr df))"
    unfolding load_data_body_def
    by (cases "read_csv rt filepath") (simp_all add: and_then_def)
  also have "\<dots> \<longleftrightarrow> (\<exists>content raw. files rt filepath = Some content \<and> parse_csv rt content = Inr raw
        \<and> ''Code'' \<in> set (map fst raw) \<and> set energy_columns \<subseteq> set (map fst raw)
        \<and> (\<exists>years. map_of raw ''Year'' = Some years
              \<and> (\<forall>c \<in> set years. c \<noteq> CNaN \<and> (\<forall>s. c = CStr s \<longrightarrow> int_of_str rt s \<noteq> None)))
        \<and> ''Entity'' \<in> set (map fst raw))"
    unfolding p read_csv_Inr by (intro iffI; elim exE conjE; (intro exI conjI; assumption))
  finally show ?thesis .
qed

lemma example_load:
  "load_data_body (example_runtime (\<lambda>c. Inr example_raw)) ''modern-renewable-prod.csv'' =
     Inr example_loaded"
  by (simp add: load_data_body_def read_csv_def example_runtime_def and_then_def example_raw_def
      drop_columns_def fillna_columns_def energy_columns_def fillna_zero_def assign_column_def
      astype_int_def astype_str_def example_loaded_def)

section \<open>The year filters\<close>

text \<open>
  Claim C2. The filter of the Search view keeps, among the rows of the selected regions,
  exactly the rows with \<open>a \<le> year \<le> b\<close>, both ends included, in their order; when the
  selection covers every entity of the table these are exactly the rows of the table
  with \<open>a \<le> year \<le> b\<close>. For \<open>a = b\<close> the result is the result of the single-year
  filter of the Energy Types view for the year \<open>a\<close> and the same entities, which keeps
  the rows whose year equals \<open>a\<close>.
\<close>

theorem filter_by_year_range:
  "search_filtered_df rows [a, b] regions =
     Inr (filter (\<lambda>r. a \<le> Year r \<and> Year r \<le> b) (filter (\<lambda>r. Entity r \<in> set regions) rows))
   \<and> (set (map Entity rows) \<subseteq> set regions \<longrightarrow>
        search_filtered_df rows [a, b] regions =
          Inr (filter (\<lambda>r. a \<le> Year r \<and> Year r \<le> b) rows))
   \<and> search_filtered_df rows [a, a] regions = Inr (energy_types_filtered_df rows a regions)
   \<and> energy_types_filtered_df rows a regions =
        filter (\<lambda>r. Year r = a) (filter (\<lambda>r. Entity r \<in> set regions) rows)"
proof -
  have 1: "search_filtered_df rows [a, b] regions =
     Inr (filter (\<lambda>r. a \<le> Year r \<and> Year r \<le> b) (filter (\<lambda>r. Entity r \<in> set regions) rows))"
    by (simp add: search_filtered_df_filter conj_commute conj_left_commute)
  have 2: "search_filtered_df rows [a, b] regions =
          Inr (filter (\<lambda>r. a \<le> Year r \<and> Year r \<le> b) rows)"
    if "set (map Entity rows) \<subseteq> set regions"
  proof -
    have "filter (\<lambda>r. a \<le> Year r \<and> Year r \<le> b \<and> Entity r \<in> set regions) rows =
          filter (\<lambda>r. a \<le> Year r \<and> Year r \<le> b) rows"
      using that by (intro filter_cong) auto
    then show ?thesis by (simp add: search_filtered_df_filter)
  qed
  have 3: "search_filtered_df rows [a, a] regions = Inr (energy_types_filtered_df rows a regions)"
  proof -
    have "filter (\<lambda>r. a \<le> Year r \<and> Year r \<le> a \<and> Entity r \<in> set regions) rows =
          filter (\<lambda>r. Year r = a \<and> Entity r \<in> set regions) rows"
      by (intro filter_cong) auto
    then show ?thesis
      by (simp add: search_filtered_df_filter energy_types_filtered_df_filter)
  qed
  have 4: "energy_types_filtered_df rows a regions =
        filter (\<lambda>r. Year r = a) (filter (\<lambda>r. Entity r \<in> set regions) rows)"
    by (simp add: energy_types_filtered_df_filter conj_commute)
  from 1 2 3 4 show ?thesis by blast
qed

theorem filter_by_year_range_witness:
  "set (map Entity [tunisia_2020, tunisia_2021]) \<subseteq> set [''Tunisia'']
   \<and> search_filtered_df [tunisia_2020, tunisia_2021] [2021, 2021] [''Tunisia''] = Inr [tunisia_2021]
   \<and> energy_types_filtered_df [tunisia_2020, tunisia_2021] 2021 [''Tunisia''] = [tunisia_2021]"
  using filter_by_year_range [of "[tunisia_2020, tunisia_2021]" 2021 2021 "[''Tunisia'']"]
  by (simp add: tunisia_2020_def tunisia_2021_def)

section \<open>Empty selections and empty results\<close>

text \<open>
  Claim C3, as the code has it. In the Energy Types and the Search view an empty
  selection and an empty filtered result are not errors: the callback returns and every
  output is a blank figure that carries nothing but an explanatory title. In the Energy
  Types view a missing year or a missing or empty entity list gives the title "Please
  select a year and at least one entity to display the data." (so does the year 2021
  with the entity list \<open>[]\<close>), and a selection that matches no row gives "No data
  available for the selected year and entities.". In the Search view a missing or empty
  region list or a missing energy type gives "Please select at least one region and an
  energy type to display the data.", and a range \<open>[a, b]\<close> and regions that match no
  row give "No data available for the selected filters.". The Worldwide view has no
  placeholder: without an energy type its callback raises \<open>PreventUpdate\<close>.
\<close>

theorem empty_selection_is_placeholder:
  "(selected_year = None \<or> py_not selected_entities \<longrightarrow>
      update_energy_types arith energy_data selected_year selected_entities =
        (let p = \<lparr>chart = BlankChart,
                  title = ''Please select a year and at least one entity to display the data.'',
                  value_label = [], y_columns = [], table = NoTable\<rparr>
         in (p, p, p)))
   \<and> (entities \<noteq> [] \<longrightarrow>
        \<not> (\<exists>r \<in> set energy_data. Year r = y \<and> Entity r \<in> set entities) \<longrightarrow>
      update_energy_types arith energy_data (Some y) (Some entities) =
        (let p = \<lparr>chart = BlankChart,
                  title = ''No data available for the selected year and entities.'',
                  value_label = [], y_columns = [], table = NoTable\<rparr>
         in (p, p, p)))
   \<and> (py_not regions \<or> energy_type = None \<longrightarrow>
      update_search_section energy_data year_range regions energy_type =
        (let p = \<lparr>chart = BlankChart,
                  title = ''Please select at least one region and an energy type to display the data.'',
                  value_label = [], y_columns = [], table = NoTable\<rparr>
         in Inr (p, p, p, p)))
   \<and> (rs \<noteq> [] \<longrightarrow>
        \<not> (\<exists>r \<in> set energy_data. a \<le> Year r \<and> Year r \<le> b \<and> Entity r \<in> set rs) \<longrightarrow>
      update_search_section energy_data [a, b] (Some rs) (Some t) =
        (let p = \<lparr>chart = BlankChart,
                  title = ''No data available for the selected filters.'',
                  value_label = [], y_columns = [], table = NoTable\<rparr>
         in Inr (p, p, p, p)))
   \<and> update_worldwide_map energy_data None = Inl PreventUpdate"
proof -
  have 1: "update_energy_types arith energy_data selected_year selected_entities =
        (let p = \<lparr>chart = BlankChart,
                  title = ''Please select a year and at least one entity to display the data.'',
                  value_label = [], y_columns = [], table = NoTable\<rparr>
         in (p, p, p))" if "selected_year = None \<or> py_not selected_entities"
    using that by (auto simp: update_energy_types_def empty_fig_def split: option.splits)
  have 2: "update_energy_types arith energy_data (Some y) (Some entities) =
        (let p = \<lparr>chart = BlankChart,
                  title = ''No data available for the selected year and entities.'',
                  value_label = [], y_columns = [], table = NoTable\<rparr>
         in (p, p, p))"
    if "entities \<noteq> []"
      "\<not> (\<exists>r \<in> set energy_data. Year r = y \<and> Entity r \<in> set entities)"
  proof -
    from that(2) have "energy_types_filtered_df energy_data y entities = []"
      by (simp add: energy_types_filtered_df_filter filter_empty_conv)
    with that(1) show ?thesis
      by (simp add: update_energy_types_def py_not_def py_list_def empty_fig_def)
  qed
  have 3: "update_search_section energy_data year_range regions energy_type =
        (let p = \<lparr>chart = BlankChart,
                  title = ''Please select at least one region and an energy type to display the data.'',
                  value_label = [], y_columns = [], table = NoTable\<rparr>
         in Inr (p, p, p, p))" if "py_not regions \<or> energy_type = None"
    using that by (auto simp: update_search_section_def empty_fig_def split: option.splits)
  have 4: "update_search_section energy_data [a, b] (Some rs) (Some t) =
        (let p = \<lparr>chart = BlankChart,
                  title = ''No data available for the selected filters.'',
                  value_label = [], y_columns = [], table = NoTable\<rparr>
         in Inr (p, p, p, p))"
    if "rs \<noteq> []"
      "\<not> (\<exists>r \<in> set energy_data. a \<le> Year r \<and> Year r \<le> b \<and> Entity r \<in> set rs)"
  proof -
    from that(2) have "search_filtered_df energy_data [a, b] rs = Inr []"
      by (simp add: search_filtered_df_filter filter_empty_conv)
    with that(1) show ?thesis
      by (simp add: update_search_section_def py_not_def py_list_def empty_fig_def)
  qed
  have 5: "update_worldwide_map energy_data None = Inl PreventUpdate"
    by (simp add: update_worldwide_map_def)
  from 1 2 3 4 5 show ?thesis by blast
qed

theorem empty_selection_is_placeholder_witness:
  "py_not (Some ([] :: string list))
   \<and> update_energy_types float64_sums [tunisia_2020, tunisia_2021] (Some 2021) (Some []) =
       (\<lparr>chart = BlankChart,
         title = ''Please select a year and at least one entity to display the data.'',
         value_label = [], y_columns = [], table = NoTable\<rparr>,
        \<lparr>chart = BlankChart,
         title = ''Please select a year and at least one entity to display the data.'',
         value_label = [], y_columns = [], table = NoTable\<rparr>,
        \<lparr>chart = BlankChart,
         title = ''Please select a year and at least one entity to display the data.'',
         value_label = [], y_columns = [], table = NoTable\<rparr>)
   \<and> energy_types_filtered_df [tunisia_2020, tunisia_2021] 2019 [''Tunisia''] = []
   \<and> update_energy_types float64_sums [tunisia_2020, tunisia_2021] (Some 2019)
        (Some [''Tunisia'']) =
       (\<lparr>chart = BlankChart,
         title = ''No data available for the selected year and entities.'',
         value_label = [], y_columns = [], table = NoTable\<rparr>,
        \<lparr>chart = BlankChart,
         title = ''No data available for the selected year and entities.'',
         value_label = [], y_columns = [], table = NoTable\<rparr>,
        \<lparr>chart = BlankChart,
         title = ''No data available for the selected year and entities.'',
         value_label = [], y_columns = [], table = NoTable\<rparr>)
   \<and> update_search_section [tunisia_2020, tunisia_2021] [2020, 2021] (Some []) (Some WindPower) =
       Inr (\<lparr>chart = BlankChart,
             title = ''Please select at least one region and an energy type to display the data.'',
             value_label = [], y_columns = [], table = NoTable\<rparr>,
            \<lparr>chart = BlankChart,
             title = ''Please select at least one region and an energy type to display the data.'',
             value_label = [], y_columns = [], table = NoTable\<rparr>,
            \<lparr>chart = BlankChart,
             title = ''Please select at least one region and an energy type to display the data.'',
             value_label = [], y_columns = [], table = NoTable\<rparr>,
            \<lparr>chart = BlankChart,
             title = ''Please select at least one region and an energy type to display the data.'',
             value_label = [], y_columns = [], table = NoTable\<rparr>)
   \<and> search_filtered_df [tunisia_2020, tunisia_2021] [2020, 2021] [''World''] = Inr []
   \<and> update_search_section [tunisia_2020, tunisia_2021] [2020, 2021] (Some [''World''])
        (Some WindPower) =
       Inr (\<lparr>chart = BlankChart,
             title = ''No data available for the selected filters.'',
             value_label = [], y_columns = [], table = NoTable\<rparr>,
            \<lparr>chart = BlankChart,
             title = ''No data available for the selected filters.'',
             value_label = [], y_columns = [], table = NoTable\<rparr>,
            \<lparr>chart = BlankChart,
             title = ''No data available for the selected filters.'',
             value_label = [], y_columns = [], table = NoTable\<rparr>,
            \<lparr>chart = BlankChart,
             title = ''No data available for the selected filters.'',
             value_label = [], y_columns = [], table = NoTable\<rparr>)
   \<and> update_worldwide_map [tunisia_2020, tunisia_2021] None = Inl PreventUpdate"
proof -
  have a: "py_not (Some ([] :: string list))" by (simp add: py_not_def)
  have b: "energy_types_filtered_df [tunisia_2020, tunisia_2021] 2019 [''Tunisia''] = []"
    by (simp add: energy_types_filtered_df_filter tunisia_2020_def tunisia_2021_def)
  have b': "\<not> (\<exists>r \<in> set [tunisia_2020, tunisia_2021]. Year r = 2019 \<and> Entity r \<in> set [''Tunisia''])"
    by (simp add: tunisia_2020_def tunisia_2021_def)
  have c: "search_filtered_df [tunisia_2020, tunisia_2021] [2020, 2021] [''World''] = Inr []"
    by (simp add: search_filtered_df_filter tunisia_2020_def tunisia_2021_def)
  have c': "\<not> (\<exists>r \<in> set [tunisia_2020, tunisia_2021].
                 2020 \<le> Year r \<and> Year r \<le> 2021 \<and> Entity r \<in> set [''World''])"
    by (simp add: tunisia_2020_def tunisia_2021_def)
  have n: "[''Tunisia''] \<noteq> []" "[''World''] \<noteq> []" by simp_all
  note inst = empty_selection_is_placeholder
        [of "Some 2021" "Some []" float64_sums "[tunisia_2020, tunisia_2021]" "[''Tunisia'']" 2019
            "Some []" "Some WindPower" "[2020, 2021]" "[''World'']" 2020 2021 WindPower]
  have A: "update_energy_types float64_sums [tunisia_2020, tunisia_2021] (Some 2021) (Some []) =
       (\<lparr>chart = BlankChart,
         title = ''Please select a year and at least one entity to display the data.'',
         value_label = [], y_columns = [], table = NoTable\<rparr>,
        \<lparr>chart = BlankChart,
         title = ''Please select a year and at least one entity to display the data.'',
         value_label = [], y_columns = [], table = NoTable\<rparr>,
        \<lparr>chart = BlankChart,
         title = ''Please select a year and at least one entity to display the data.'',
         value_label = [], y_columns = [], table = NoTable\<rparr>)"
    using inst [THEN conjunct1] a by (simp add: Let_def)
  have B: "update_energy_types float64_sums [tunisia_2020, tunisia_2021] (Some 2019)
        (Some [''Tunisia'']) =
       (\<lparr>chart = BlankChart,
         title = ''No data available for the selected year and entities.'',
         value_label = [], y_columns = [], table = NoTable\<rparr>,
        \<lparr>chart = BlankChart,
         title = ''No data available for the selected year and entities.'',
         value_label = [], y_columns = [], table = NoTable\<rparr>,
        \<lparr>chart = BlankChart,
         title = ''No data available for the selected year and entities.'',
         value_label = [], y_columns = [], table = NoTable\<rparr>)"
    using inst [THEN conjunct2, THEN conjunct1, THEN mp, THEN mp, OF n(1) b']
    by (simp add: Let_def)
  have C: "update_search_section [tunisia_2020, tunisia_2021] [2020, 2021] (Some []) (Some WindPower) =
       Inr (\<lparr>chart = BlankChart,
             title = ''Please select at least one region and an energy type to display the data.'',
             value_label = [], y_columns = [], table = NoTable\<rparr>,
            \<lparr>chart = BlankChart,
             title = ''Please select at least one region and an energy type to display the data.'',
             value_label = [], y_columns = [], table = NoTable\<rparr>,
            \<lparr>chart = BlankChart,
             title = ''Please select at least one region and an energy type to display the data.'',
             value_label = [], y_columns = [], table = NoTable\<rparr>,
            \<lparr>chart = BlankChart,
             title = ''Please select at least one region and an energy type to display the data.'',
             value_label = [], y_columns = [], table = NoTable\<rparr>)"
    using inst [THEN conjunct2, THEN conjunct2, THEN conjunct1] a by (simp add: Let_def)
  have D: "update_search_section [tunisia_2020, tunisia_2021] [2020, 2021] (Some [''World''])
        (Some WindPower) =
       Inr (\<lparr>chart = BlankChart,
             title = ''No data available for the selected filters.'',
             value_label = [], y_columns = [], table = NoTable\<rparr>,
            \<lparr>chart = BlankChart,
             title = ''No data available for the selected filters.'',
             value_label = [], y_columns = [], table = NoTable\<rparr>,
            \<lparr>chart = BlankChart,
             title = ''No data available for the selected filters.'',
             value_label = [], y_columns = [], table = NoTable\<rparr>,
            \<lparr>chart = BlankChart,
             title = ''No data available for the selected filters.'',
             value_label = [], y_columns = [], table = NoTable\<rparr>)"
    using inst [THEN conjunct2, THEN conjunct2, THEN conjunct2, THEN conjunct1, THEN mp, THEN mp,
               OF n(2) c']
    by (simp add: Let_def)
  have E: "update_worldwide_map [tunisia_2020, tunisia_2021] None = Inl PreventUpdate"
    by (rule inst [THEN conjunct2, THEN conjunct2, THEN conjunct2, THEN conjunct2])
  from a A b B C c D E show ?thesis by (intro conjI)
qed

text \<open>
  The claim for every view fails on the Worldwide view: without an energy type its
  callback raises instead of returning a placeholder, and on an empty table it returns a
  choropleth whose title ends in "nan", not a placeholder.
\<close>

theorem worldwide_view_has_no_placeholder:
  "update_worldwide_map [tunisia_2020, tunisia_2021] None = Inl PreventUpdate
   \<and> update_worldwide_map [] (Some WindPower) =
       Inr \<lparr>chart = ChoroplethChart,
            title = ''Global Electricity from wind - TWh Consumption in nan'',
            value_label = ''Electricity Consumption (TWh)'',
            y_columns = [''Electricity from wind - TWh''],
            table = MapTable []\<rparr>"
  by (simp add: update_worldwide_map_def create_worldwide_map_def latest_year_def map_data_def
      latest_rows_def List.map_filter_def)

section \<open>The Worldwide view without an energy type\<close>

text \<open>
  Claim C9. When the energy type of the Worldwide view is \<open>None\<close>, the callback raises
  \<open>PreventUpdate\<close>: it returns no figure, placeholder or other, and the figure that
  Dash shows stays the one it showed before.
\<close>

theorem worldwide_none_prevents_update:
  "update_worldwide_map energy_data None = Inl PreventUpdate
   \<and> (\<forall>fig. update_worldwide_map energy_data None \<noteq> Inr fig)
   \<and> dash_output current (update_worldwide_map energy_data None) = current"
  by (simp add: update_worldwide_map_def dash_output_def)

theorem worldwide_none_prevents_update_witness:
  "update_worldwide_map [tunisia_2021] None = Inl PreventUpdate
   \<and> dash_output (create_worldwide_map [tunisia_2021] WindPower)
        (update_worldwide_map [tunisia_2021] None) = create_worldwide_map [tunisia_2021] WindPower"
  using worldwide_none_prevents_update
          [of "[tunisia_2021]" "create_worldwide_map [tunisia_2021] WindPower"]
  by blast


section \<open>The pie chart of the Energy Types view\<close>

text \<open>
  Claim C10, as the code has it. The pie chart always has exactly four slices, one per
  energy type in the order of \<open>energy_types\<close>. The value of a slice is the column sum
  of the per-entity sums of that column, the entities taken in ascending order of their
  names and the rows of an entity in their order in the input. In exact arithmetic this
  is the sum of the column over all rows of the input, so there the grouping by entity
  changes nothing. In the Energy Types view, with a non-empty entity list and a row of a
  selected entity at the selected year, the input is the rows of the selected entities at
  that year.
\<close>

theorem pie_one_slice_per_energy_type:
  "table (create_energy_pie_fig arith data year) =
     SliceTable
       (map (\<lambda>t. (column_name t,
                   frame_sum_of arith
                     (map (\<lambda>e. group_sum_of arith
                                  (map (cell_of t) (filter (\<lambda>r. Entity r = e) data)))
                        (sort (remdups (map Entity data))))))
          [WindPower, SolarPower, HydroPower, OtherRenewables])
   \<and> table (create_energy_pie_fig exact_sums data year) =
     SliceTable
       [(''Electricity from wind - TWh'', sum_list (map wind_twh data)),
        (''Electricity from solar - TWh'', sum_list (map solar_twh data)),
        (''Electricity from hydro - TWh'', sum_list (map hydro_twh data)),
        (''Other renewables including bioenergy - TWh'', sum_list (map other_twh data))]
   \<and> (entities \<noteq> [] \<longrightarrow>
        (\<exists>r \<in> set energy_data. Year r = y \<and> Entity r \<in> set entities) \<longrightarrow>
        fst (update_energy_types arith energy_data (Some y) (Some entities)) =
          create_energy_pie_fig arith
            (filter (\<lambda>r. Year r = y \<and> Entity r \<in> set entities) energy_data) y)"
proof -
  have 1: "table (create_energy_pie_fig arith data year) =
     SliceTable
       (map (\<lambda>t. (column_name t,
                   frame_sum_of arith
                     (map (\<lambda>e. group_sum_of arith
                                  (map (cell_of t) (filter (\<lambda>r. Entity r = e) data)))
                        (sort (remdups (map Entity data))))))
          [WindPower, SolarPower, HydroPower, OtherRenewables])"
    by (simp only: create_energy_pie_fig_def pie_sum_slices figure.simps)
  have 2: "table (create_energy_pie_fig exact_sums data year) =
     SliceTable
       [(''Electricity from wind - TWh'', sum_list (map wind_twh data)),
        (''Electricity from solar - TWh'', sum_list (map solar_twh data)),
        (''Electricity from hydro - TWh'', sum_list (map hydro_twh data)),
        (''Other renewables including bioenergy - TWh'', sum_list (map other_twh data))]"
    by (simp add: create_energy_pie_fig_def pie_sum_exact)
  have 3: "fst (update_energy_types arith energy_data (Some y) (Some entities)) =
          create_energy_pie_fig arith
            (filter (\<lambda>r. Year r = y \<and> Entity r \<in> set entities) energy_data) y"
    if "entities \<noteq> []" "\<exists>r \<in> set energy_data. Year r = y \<and> Entity r \<in> set entities"
  proof -
    from that(2) have "energy_types_filtered_df energy_data y entities \<noteq> []"
      by (simp add: energy_types_filtered_df_filter filter_empty_conv)
    from update_energy_types_charts [OF that(1) this, of arith] show ?thesis
      by (simp add: energy_types_filtered_df_filter)
  qed
  from 1 2 3 show ?thesis by blast
qed

theorem pie_one_slice_per_energy_type_witness:
  "table (create_energy_pie_fig float64_sums [tunisia_2020, tunisia_2021] 2021) =
       SliceTable
         [(''Electricity from wind - TWh'', 4), (''Electricity from solar - TWh'', 2),
          (''Electricity from hydro - TWh'', 0),
          (''Other renewables including bioenergy - TWh'', 0)]
   \<and> table (create_energy_pie_fig exact_sums [tunisia_2020, tunisia_2021] 2021) =
       SliceTable
         [(''Electricity from wind - TWh'', 4), (''Electricity from solar - TWh'', 2),
          (''Electricity from hydro - TWh'', 0),
          (''Other renewables including bioenergy - TWh'', 0)]
   \<and> [''Tunisia''] \<noteq> []
   \<and> tunisia_2020 \<in> set [tunisia_2020, tunisia_2021]
   \<and> Year tunisia_2020 = 2020 \<and> Entity tunisia_2020 \<in> set [''Tunisia'']
   \<and> fst (update_energy_types float64_sums [tunisia_2020, tunisia_2021] (Some 2020)
            (Some [''Tunisia''])) =
       create_energy_pie_fig float64_sums [tunisia_2020] 2020"
proof -
  note inst = pie_one_slice_per_energy_type
        [of _ "[tunisia_2020, tunisia_2021]" 2021 "[''Tunisia'']" "[tunisia_2020, tunisia_2021]" 2020]
  have e: "map (\<lambda>t. (column_name t,
                   frame_sum_of float64_sums
                     (map (\<lambda>e. group_sum_of float64_sums
                                  (map (cell_of t)
                                     (filter (\<lambda>r. Entity r = e) [tunisia_2020, tunisia_2021])))
                        (sort (remdups (map Entity [tunisia_2020, tunisia_2021]))))))
          [WindPower, SolarPower, HydroPower, OtherRenewables] =
         [(''Electricity from wind - TWh'', 4), (''Electricity from solar - TWh'', 2),
          (''Electricity from hydro - TWh'', 0),
          (''Other renewables including bioenergy - TWh'', 0)]"
    by code_simp
  have A: "table (create_energy_pie_fig float64_sums [tunisia_2020, tunisia_2021] 2021) =
       SliceTable
         [(''Electricity from wind - TWh'', 4), (''Electricity from solar - TWh'', 2),
          (''Electricity from hydro - TWh'', 0),
          (''Other renewables including bioenergy - TWh'', 0)]"
    using inst [of float64_sums, THEN conjunct1] unfolding e .
  have B: "table (create_energy_pie_fig exact_sums [tunisia_2020, tunisia_2021] 2021) =
       SliceTable
         [(''Electricity from wind - TWh'', 4), (''Electricity from solar - TWh'', 2),
          (''Electricity from hydro - TWh'', 0),
          (''Other renewables including bioenergy - TWh'', 0)]"
    using inst [of float64_sums, THEN conjunct2, THEN conjunct1]
    by (simp add: tunisia_2020_def tunisia_2021_def)
  have n: "[''Tunisia''] \<noteq> []" by simp
  have h: "\<exists>r \<in> set [tunisia_2020, tunisia_2021]. Year r = 2020 \<and> Entity r \<in> set [''Tunisia'']"
    by (simp add: tunisia_2020_def)
  have f: "filter (\<lambda>r. Year r = 2020 \<and> Entity r \<in> set [''Tunisia'']) [tunisia_2020, tunisia_2021]
           = [tunisia_2020]"
    by (simp add: tunisia_2020_def tunisia_2021_def)
  have C: "fst (update_energy_types float64_sums [tunisia_2020, tunisia_2021] (Some 2020)
            (Some [''Tunisia''])) =
       create_energy_pie_fig float64_sums [tunisia_2020] 2020"
    using inst [of float64_sums, THEN conjunct2, THEN conjunct2, THEN mp, THEN mp, OF n h]
    unfolding f .
  have m: "tunisia_2020 \<in> set [tunisia_2020, tunisia_2021]" "Year tunisia_2020 = 2020"
    "Entity tunisia_2020 \<in> set [''Tunisia'']"
    by (simp_all add: tunisia_2020_def)
  from A B n m C show ?thesis by (intro conjI)
qed

text \<open>
  The claim that grouping has no effect on the slice values fails in 64-bit arithmetic.
  On the three rows of \<open>tenths_2021\<close> the wind slice is \<open>(0.1 + 0.2) + 0.3\<close>, the
  entities in the order Algeria, Morocco, Tunisia, which is the double
  0.6000000000000001; the sum of the wind column over the rows in their order is
  \<open>(0.3 + 0.2) + 0.1\<close>, the double 0.6.
\<close>

theorem pie_grouping_changes_float64_slice:
  "table (create_energy_pie_fig float64_sums tenths_2021 2021) =
     SliceTable
       [(''Electricity from wind - TWh'', 5404319552844596 / 9007199254740992),
        (''Electricity from solar - TWh'', 0),
        (''Electricity from hydro - TWh'', 0),
        (''Other renewables including bioenergy - TWh'', 0)]
   \<and> frame_sum_of float64_sums (map wind_twh tenths_2021) =
       5404319552844595 / 9007199254740992
   \<and> frame_sum_of float64_sums (map wind_twh tenths_2021) \<noteq>
       5404319552844596 / 9007199254740992"
proof -
  have p: "pie_sum float64_sums tenths_2021 =
       [(''Electricity from wind - TWh'', 5404319552844596 / 9007199254740992),
        (''Electricity from solar - TWh'', 0),
        (''Electricity from hydro - TWh'', 0),
        (''Other renewables including bioenergy - TWh'', 0)]"
    by code_simp
  have 1: "table (create_energy_pie_fig float64_sums tenths_2021 2021) =
     SliceTable
       [(''Electricity from wind - TWh'', 5404319552844596 / 9007199254740992),
        (''Electricity from solar - TWh'', 0),
        (''Electricity from hydro - TWh'', 0),
        (''Other renewables including bioenergy - TWh'', 0)]"
    by (simp only: create_energy_pie_fig_def figure.simps p)
  have 2: "frame_sum_of float64_sums (map wind_twh tenths_2021) =
       5404319552844595 / 9007199254740992"
    by code_simp
  have 3: "frame_sum_of float64_sums (map wind_twh tenths_2021) \<noteq>
       5404319552844596 / 9007199254740992"
    unfolding 2 by simp
  from 1 2 3 show ?thesis by (intro conjI)
qed

section \<open>Cumulative sums by year\<close>

text \<open>
  Claim C1. On the rows (Tunisia, 2020, wind 1, solar 2) and (Tunisia, 2021, wind 3,
  solar 0) the area table of the Search view has the years 2020 and 4041 and the wind
  values 1 and 4: the running sum has been taken over the year column too, so the table
  has no row for the year 2021. The area table of the Energy Types view has the years
  2020 and 2021 and, at 2021, wind 4 and solar 2.
\<close>

theorem search_area_sums_the_year_column:
  "(case update_search_section [tunisia_2020, tunisia_2021] [2020, 2021] (Some [''Tunisia''])
           (Some WindPower) of
      Inl e \<Rightarrow> NoTable
    | Inr (line_fig, bar_fig, pie_fig, area_fig) \<Rightarrow> table area_fig) =
     YearTable [2020, 4041] [(''Electricity from wind - TWh'', [1, 4])]
   \<and> table (create_energy_area_fig [tunisia_2020, tunisia_2021] True) =
     YearTable [2020, 2021]
       [(''Electricity from wind - TWh'', [1, 4]), (''Electricity from solar - TWh'', [2, 2]),
        (''Electricity from hydro - TWh'', [0, 0]),
        (''Other renewables including bioenergy - TWh'', [0, 0])]"
proof -
  have f: "search_filtered_df [tunisia_2020, tunisia_2021] [2020, 2021] [''Tunisia''] =
           Inr [tunisia_2020, tunisia_2021]"
    by (simp add: search_filtered_df_filter tunisia_2020_def tunisia_2021_def)
  have s: "search_area_data [tunisia_2020, tunisia_2021] WindPower =
           ([2020, 4041], [(''Electricity from wind - TWh'', [1, 4])])"
    by (simp add: search_area_data_def groupby_sum_def group_keys_def group_sum_def cumsum_def
        tunisia_2020_def tunisia_2021_def)
  have a: "area_data [tunisia_2020, tunisia_2021] True =
           ([2020, 2021],
            [(''Electricity from wind - TWh'', [1, 4]), (''Electricity from solar - TWh'', [2, 2]),
             (''Electricity from hydro - TWh'', [0, 0]),
             (''Other renewables including bioenergy - TWh'', [0, 0])])"
    by (simp add: area_data_def groupby_sum_def group_keys_def group_sum_def cumsum_def
        energy_type_columns_def energy_types_def tunisia_2020_def tunisia_2021_def)
  have 1: "(case update_search_section [tunisia_2020, tunisia_2021] [2020, 2021] (Some [''Tunisia''])
           (Some WindPower) of
      Inl e \<Rightarrow> NoTable
    | Inr (line_fig, bar_fig, pie_fig, area_fig) \<Rightarrow> table area_fig) =
     YearTable [2020, 4041] [(''Electricity from wind - TWh'', [1, 4])]"
    by (simp add: update_search_section_def py_not_def py_list_def f s Let_def)
  have 2: "table (create_energy_area_fig [tunisia_2020, tunisia_2021] True) =
     YearTable [2020, 2021]
       [(''Electricity from wind - TWh'', [1, 4]), (''Electricity from solar - TWh'', [2, 2]),
        (''Electricity from hydro - TWh'', [0, 0]),
        (''Other renewables including bioenergy - TWh'', [0, 0])]"
    by (simp add: create_energy_area_fig_def a)
  from 1 2 show ?thesis by blast
qed


section \<open>The choropleth\<close>

text \<open>
  Claim C7. For a non-empty table and any energy type, the choropleth is built from the
  rows of the maximum year of the table only: its table has exactly one row for every
  pair of entity and ISO code that occurs among these rows, no pair twice, and the value
  of a row is the sum of the selected column over the rows of that year with that pair.
\<close>

theorem choropleth_latest_year_per_pair:
  assumes "data \<noteq> []"
  shows "table (create_worldwide_map data t) = MapTable (map_data data t)
    \<and> distinct (map (\<lambda>(e, a3, v). (e, a3)) (map_data data t))
    \<and> set (map (\<lambda>(e, a3, v). (e, a3)) (map_data data t)) =
        {(Entity r, a3) | r a3.
           r \<in> set data \<and> Year r = Max (Year ` set data) \<and> ISO_A3 r = Some a3}
    \<and> (\<forall>(e, a3, v) \<in> set (map_data data t).
          v = sum_list (map (cell_of t)
                (filter (\<lambda>r. Year r = Max (Year ` set data) \<and> Entity r = e \<and> ISO_A3 r = Some a3)
                   data)))"
proof -
  let ?m = "Max (Year ` set data)"
  let ?rows = "filter (\<lambda>r. Year r = ?m) data"
  let ?ks = "sort (remdups (List.map_filter entity_iso ?rows))"
  have md: "map_data data t =
      map (\<lambda>k. (fst k, snd k,
             sum_list (map (cell_of t) (filter (\<lambda>r. entity_iso r = Some k) ?rows)))) ?ks"
    using assms by (simp add: map_data_def latest_rows_filter Let_def)
  have keys: "map (\<lambda>(e, a3, v). (e, a3)) (map_data data t) = ?ks"
    unfolding md by (simp add: comp_def map_idI)
  have 1: "table (create_worldwide_map data t) = MapTable (map_data data t)"
    by (simp add: create_worldwide_map_def)
  have 2: "distinct (map (\<lambda>(e, a3, v). (e, a3)) (map_data data t))"
    unfolding keys by simp
  have 3: "set (map (\<lambda>(e, a3, v). (e, a3)) (map_data data t)) =
        {(Entity r, a3) | r a3. r \<in> set data \<and> Year r = ?m \<and> ISO_A3 r = Some a3}"
    unfolding keys by (auto simp: set_map_filter_entity_iso)
  have 4: "\<forall>(e, a3, v) \<in> set (map_data data t).
          v = sum_list (map (cell_of t)
                (filter (\<lambda>r. Year r = ?m \<and> Entity r = e \<and> ISO_A3 r = Some a3) data))"
  proof -
    have "filter (\<lambda>r. entity_iso r = Some (e, a3)) ?rows =
          filter (\<lambda>r. Year r = ?m \<and> Entity r = e \<and> ISO_A3 r = Some a3) data" for e a3
      by (simp add: entity_iso_Some conj_commute)
    then show ?thesis unfolding md by auto
  qed
  from 1 2 3 4 show ?thesis by blast
qed

theorem choropleth_latest_year_per_pair_witness:
  "[tunisia_2020, tunisia_2021] \<noteq> []
   \<and> table (create_worldwide_map [tunisia_2020, tunisia_2021] WindPower) =
        MapTable [(''Tunisia'', ''TUN'', 3)]"
proof -
  have m: "map_data [tunisia_2020, tunisia_2021] WindPower = [(''Tunisia'', ''TUN'', 3)]"
    by (simp add: map_data_def latest_rows_def latest_year_def series_eq_def boolean_index_def
        List.map_filter_def entity_iso_def tunisia_2020_def tunisia_2021_def)
  have n: "[tunisia_2020, tunisia_2021] \<noteq> []" by simp
  from choropleth_latest_year_per_pair [OF n, of WindPower] m n show ?thesis by simp
qed

section \<open>The three charts of the Energy Types view\<close>

text \<open>
  Claim C8, as the code has it. For a selected year \<open>Y\<close> and a non-empty entity list,
  when some row of a selected entity has the year \<open>Y\<close>, the area chart is the
  cumulative chart of all rows of the selected entities with year up to and including
  \<open>Y\<close>, and the pie and the bar chart are built from the rows with year \<open>Y\<close> only.
  When no row of a selected entity has the year \<open>Y\<close>, all three outputs are the
  placeholder "No data available for the selected year and entities.", whatever rows
  the earlier years hold.
\<close>

theorem energy_types_charts_by_year:
  "(entities \<noteq> [] \<longrightarrow> (\<exists>r \<in> set energy_data. Year r = y \<and> Entity r \<in> set entities) \<longrightarrow>
      update_energy_types arith energy_data (Some y) (Some entities) =
        (create_energy_pie_fig arith
           (filter (\<lambda>r. Year r = y \<and> Entity r \<in> set entities) energy_data) y,
         create_energy_area_fig
           (filter (\<lambda>r. Year r \<le> y \<and> Entity r \<in> set entities) energy_data) True,
         create_energy_bar_fig
           (filter (\<lambda>r. Year r = y \<and> Entity r \<in> set entities) energy_data)))
   \<and> (entities \<noteq> [] \<longrightarrow> \<not> (\<exists>r \<in> set energy_data. Year r = y \<and> Entity r \<in> set entities) \<longrightarrow>
      update_energy_types arith energy_data (Some y) (Some entities) =
        (empty_fig ''No data available for the selected year and entities.'',
         empty_fig ''No data available for the selected year and entities.'',
         empty_fig ''No data available for the selected year and entities.''))"
proof -
  have ne: "energy_types_filtered_df energy_data y entities \<noteq> [] \<longleftrightarrow>
            (\<exists>r \<in> set energy_data. Year r = y \<and> Entity r \<in> set entities)"
    by (simp add: energy_types_filtered_df_filter filter_empty_conv)
  have 1: "update_energy_types arith energy_data (Some y) (Some entities) =
        (create_energy_pie_fig arith
           (filter (\<lambda>r. Year r = y \<and> Entity r \<in> set entities) energy_data) y,
         create_energy_area_fig
           (filter (\<lambda>r. Year r \<le> y \<and> Entity r \<in> set entities) energy_data) True,
         create_energy_bar_fig
           (filter (\<lambda>r. Year r = y \<and> Entity r \<in> set entities) energy_data))"
    if "entities \<noteq> []" "\<exists>r \<in> set energy_data. Year r = y \<and> Entity r \<in> set entities"
    using that ne update_energy_types_charts [of entities energy_data y arith]
    by (simp add: energy_types_filtered_df_filter energy_types_cumulative_data_filter)
  have 2: "update_energy_types arith energy_data (Some y) (Some entities) =
        (empty_fig ''No data available for the selected year and entities.'',
         empty_fig ''No data available for the selected year and entities.'',
         empty_fig ''No data available for the selected year and entities.'')"
    if "entities \<noteq> []" "\<not> (\<exists>r \<in> set energy_data. Year r = y \<and> Entity r \<in> set entities)"
  proof -
    from that(2) ne have "energy_types_filtered_df energy_data y entities = []" by blast
    with that(1) show ?thesis
      by (simp add: update_energy_types_def py_not_def py_list_def Let_def)
  qed
  from 1 2 show ?thesis by blast
qed

theorem energy_types_charts_by_year_witness:
  "[''Tunisia''] \<noteq> []
   \<and> tunisia_2021 \<in> set [tunisia_2020, tunisia_2021] \<and> Year tunisia_2021 = 2021
   \<and> Entity tunisia_2021 \<in> set [''Tunisia'']
   \<and> table (fst (snd (update_energy_types float64_sums [tunisia_2020, tunisia_2021] (Some 2021)
                        (Some [''Tunisia''])))) =
       YearTable [2020, 2021]
         [(''Electricity from wind - TWh'', [1, 4]), (''Electricity from solar - TWh'', [2, 2]),
          (''Electricity from hydro - TWh'', [0, 0]),
          (''Other renewables including bioenergy - TWh'', [0, 0])]
   \<and> table (snd (snd (update_energy_types float64_sums [tunisia_2020, tunisia_2021] (Some 2021)
                        (Some [''Tunisia''])))) = RecordTable [tunisia_2021]
   \<and> update_energy_types float64_sums [tunisia_2020] (Some 2021) (Some [''Tunisia'']) =
        (empty_fig ''No data available for the selected year and entities.'',
         empty_fig ''No data available for the selected year and entities.'',
         empty_fig ''No data available for the selected year and entities.'')"
proof -
  have h: "\<exists>r \<in> set [tunisia_2020, tunisia_2021]. Year r = 2021 \<and> Entity r \<in> set [''Tunisia'']"
    by (simp add: tunisia_2021_def)
  have n: "\<not> (\<exists>r \<in> set [tunisia_2020]. Year r = 2021 \<and> Entity r \<in> set [''Tunisia''])"
    by (simp add: tunisia_2020_def)
  have e: "[''Tunisia''] \<noteq> []" by simp
  have a: "area_data [tunisia_2020, tunisia_2021] True =
           ([2020, 2021],
            [(''Electricity from wind - TWh'', [1, 4]), (''Electricity from solar - TWh'', [2, 2]),
             (''Electricity from hydro - TWh'', [0, 0]),
             (''Other renewables including bioenergy - TWh'', [0, 0])])"
    by (simp add: area_data_def groupby_sum_def group_keys_def group_sum_def cumsum_def
        energy_type_columns_def energy_types_def tunisia_2020_def tunisia_2021_def)
  have f1: "filter (\<lambda>r. Year r \<le> 2021 \<and> Entity r \<in> set [''Tunisia'']) [tunisia_2020, tunisia_2021]
            = [tunisia_2020, tunisia_2021]"
    by (simp add: tunisia_2020_def tunisia_2021_def)
  have f2: "filter (\<lambda>r. Year r = 2021 \<and> Entity r \<in> set [''Tunisia'']) [tunisia_2020, tunisia_2021]
            = [tunisia_2021]"
    by (simp add: tunisia_2020_def tunisia_2021_def)
  have A: "update_energy_types float64_sums [tunisia_2020, tunisia_2021] (Some 2021) (Some [''Tunisia'']) =
        (create_energy_pie_fig float64_sums [tunisia_2021] 2021,
         create_energy_area_fig [tunisia_2020, tunisia_2021] True,
         create_energy_bar_fig [tunisia_2021])"
    using energy_types_charts_by_year [of "[''Tunisia'']" "[tunisia_2020, tunisia_2021]" 2021 float64_sums] e h
    unfolding f1 f2 by blast
  have B: "update_energy_types float64_sums [tunisia_2020] (Some 2021) (Some [''Tunisia'']) =
        (empty_fig ''No data available for the selected year and entities.'',
         empty_fig ''No data available for the selected year and entities.'',
         empty_fig ''No data available for the selected year and entities.'')"
    using energy_types_charts_by_year [of "[''Tunisia'']" "[tunisia_2020]" 2021 float64_sums] e n by blast
  show ?thesis
    unfolding A B
    by (simp add: create_energy_area_fig_def a create_energy_bar_fig_def)
       (simp add: tunisia_2021_def)
qed

text \<open>
  The claim without the condition fails: with the single row of Tunisia for 2020, the
  year 2021 and the entity Tunisia, the rows up to 2021 are not empty, yet the area
  output is the placeholder and not the cumulative chart of these rows.
\<close>

theorem energy_types_area_counterexample:
  "energy_types_cumulative_data [tunisia_2020] 2021 [''Tunisia''] = [tunisia_2020]
   \<and> fst (snd (update_energy_types float64_sums [tunisia_2020] (Some 2021) (Some [''Tunisia'']))) =
       empty_fig ''No data available for the selected year and entities.''
   \<and> fst (snd (update_energy_types float64_sums [tunisia_2020] (Some 2021) (Some [''Tunisia'']))) \<noteq>
       create_energy_area_fig (energy_types_cumulative_data [tunisia_2020] 2021 [''Tunisia'']) True"
proof -
  have c: "energy_types_cumulative_data [tunisia_2020] 2021 [''Tunisia''] = [tunisia_2020]"
    by (simp add: energy_types_cumulative_data_filter tunisia_2020_def)
  have f: "energy_types_filtered_df [tunisia_2020] 2021 [''Tunisia''] = []"
    by (simp add: energy_types_filtered_df_filter tunisia_2020_def)
  have u: "fst (snd (update_energy_types float64_sums [tunisia_2020] (Some 2021) (Some [''Tunisia'']))) =
       empty_fig ''No data available for the selected year and entities.''"
    by (simp add: update_energy_types_def py_not_def py_list_def f Let_def)
  have "chart (empty_fig ''No data available for the selected year and entities.'') = BlankChart"
    by (simp add: empty_fig_def)
  moreover have "chart (create_energy_area_fig [tunisia_2020] True) = AreaChart"
    by (simp add: create_energy_area_fig_def split: prod.splits)
  ultimately have "empty_fig ''No data available for the selected year and entities.'' \<noteq>
       create_energy_area_fig [tunisia_2020] True"
    by (metis chart_kind.distinct(7))
  with c u show ?thesis by simp
qed


section \<open>Entities without an ISO code\<close>

text \<open>
  Claim C6. Provided the lookup of pycountry raises nothing but a LookupError (or one
  of its subclasses), \<open>get_iso_alpha3\<close> returns for every entity name either a code or
  \<open>None\<close>, the latter exactly when the lookup fails, and never raises. At startup every
  row of an entity whose lookup fails is removed from \<open>energy_data\<close>, the table that
  every callback reads: such an entity (for example World) has no row in
  \<open>energy_data\<close>, in either filter of the Energy Types view, in the filter of the Search
  view, or in the rows and the table of the map.
\<close>

theorem unresolved_entities_in_no_view:
  assumes "\<forall>n e. lookup n = Inl e \<longrightarrow> is_LookupError e"
  shows "(\<exists>c. get_iso_alpha3 lookup entity_name = Inr c
              \<and> (c = None \<longleftrightarrow> (\<exists>e. lookup entity_name = Inl e)))
    \<and> (\<exists>energy_data. working_data lookup loaded = Inr energy_data
          \<and> (\<forall>r \<in> set energy_data.
                ISO_A3 r \<noteq> None \<and> get_iso_alpha3 lookup (Entity r) = Inr (ISO_A3 r))
          \<and> (get_iso_alpha3 lookup entity_name = Inr None \<longrightarrow>
                entity_name \<notin> Entity ` set energy_data
              \<and> entity_name \<notin> Entity ` set (energy_types_filtered_df energy_data y entities)
              \<and> entity_name \<notin> Entity ` set (energy_types_cumulative_data energy_data y entities)
              \<and> (\<forall>filtered_df. search_filtered_df energy_data year_range regions = Inr filtered_df
                    \<longrightarrow> entity_name \<notin> Entity ` set filtered_df)
              \<and> entity_name \<notin> Entity ` set (latest_rows energy_data)
              \<and> entity_name \<notin> fst ` set (map_data energy_data t)))"
proof -
  let ?code = "\<lambda>n. case lookup n of Inl e \<Rightarrow> None | Inr a3 \<Rightarrow> Some a3"
  let ?d = "filter (\<lambda>r. ISO_A3 r \<noteq> None) (map (\<lambda>r. with_iso r (?code (Entity r))) loaded)"
  have g: "get_iso_alpha3 lookup n = Inr (?code n)" for n
    by (rule get_iso_alpha3_total [OF assms])
  have 1: "\<exists>c. get_iso_alpha3 lookup entity_name = Inr c
              \<and> (c = None \<longleftrightarrow> (\<exists>e. lookup entity_name = Inl e))"
    unfolding g by (cases "lookup entity_name") simp_all
  have w: "working_data lookup loaded = Inr ?d"
    by (rule working_data_rows [OF assms])
  have rows: "ISO_A3 r \<noteq> None \<and> get_iso_alpha3 lookup (Entity r) = Inr (ISO_A3 r)"
    if "r \<in> set ?d" for r
    using that unfolding g by auto
  have absent: "entity_name \<notin> Entity ` set ?d" if "get_iso_alpha3 lookup entity_name = Inr None"
  proof
    assume "entity_name \<in> Entity ` set ?d"
    then obtain r where "r \<in> set ?d" "Entity r = entity_name" by auto
    with rows [of r] that show False by simp
  qed
  have sub1: "set (energy_types_filtered_df ?d y entities) \<subseteq> set ?d"
    unfolding energy_types_filtered_df_filter by (rule filter_is_subset)
  have sub2: "set (energy_types_cumulative_data ?d y entities) \<subseteq> set ?d"
    unfolding energy_types_cumulative_data_filter by (rule filter_is_subset)
  have sub3: "set f \<subseteq> set ?d" if "search_filtered_df ?d year_range regions = Inr f" for f
    using that by (rule set_search_filtered_df)
  have views: "entity_name \<notin> Entity ` set ?d
              \<and> entity_name \<notin> Entity ` set (energy_types_filtered_df ?d y entities)
              \<and> entity_name \<notin> Entity ` set (energy_types_cumulative_data ?d y entities)
              \<and> (\<forall>filtered_df. search_filtered_df ?d year_range regions = Inr filtered_df
                    \<longrightarrow> entity_name \<notin> Entity ` set filtered_df)
              \<and> entity_name \<notin> Entity ` set (latest_rows ?d)
              \<and> entity_name \<notin> fst ` set (map_data ?d t)"
    if "get_iso_alpha3 lookup entity_name = Inr None"
    using absent [OF that] sub1 sub2 sub3 set_latest_rows [of ?d] map_data_entities [of ?d t]
    by blast
  from 1 w rows views show ?thesis by blast
qed

theorem unresolved_entities_in_no_view_witness:
  "get_iso_alpha3 tunisia_only ''World'' = Inr None
   \<and> get_iso_alpha3 tunisia_only ''Tunisia'' = Inr (Some ''TUN'')
   \<and> working_data tunisia_only [loaded_tunisia_2020, loaded_world_2020] =
        Inr [with_iso loaded_tunisia_2020 (Some ''TUN'')]
   \<and> ''World'' \<notin> Entity ` set (energy_types_filtered_df
                                  [with_iso loaded_tunisia_2020 (Some ''TUN'')] 2020 [''World''])"
proof -
  have h: "\<forall>n e. tunisia_only n = Inl e \<longrightarrow> is_LookupError e"
    by (simp add: tunisia_only_def)
  have g: "get_iso_alpha3 tunisia_only ''World'' = Inr None"
    by (simp add: get_iso_alpha3_def tunisia_only_def)
  have g': "get_iso_alpha3 tunisia_only ''Tunisia'' = Inr (Some ''TUN'')"
    by (simp add: get_iso_alpha3_def tunisia_only_def)
  have w: "working_data tunisia_only [loaded_tunisia_2020, loaded_world_2020] =
        Inr [with_iso loaded_tunisia_2020 (Some ''TUN'')]"
    by (simp add: working_data_def add_ISO_A3_def dropna_ISO_A3_def get_iso_alpha3_def
        tunisia_only_def loaded_tunisia_2020_def loaded_world_2020_def)
  from unresolved_entities_in_no_view
         [OF h, of "''World''" "[loaded_tunisia_2020, loaded_world_2020]" 2020 "[''World'']"]
       g g' w
  show ?thesis by auto
qed


section \<open>What a loaded table satisfies\<close>

text \<open>
  Claim C4. Let \<open>read_csv\<close> return a table whose column names are distinct (pandas
  renames a repeated header), and let \<open>load_data\<close> accept it. Then the returned table
  has the columns of the raw table without the column \<open>Code\<close>, which was there once
  and is removed, so exactly one column is gone; each of the four energy columns has no
  missing cell, and each of its cells is the raw cell, or a zero where the raw cell was
  missing; every cell of the column \<open>Year\<close> is an integer; and every cell of the column
  \<open>Entity\<close> is a string.
\<close>

theorem load_data_postconditions:
  assumes "read_csv rt filepath = Inr raw" "distinct (map fst raw)"
    and "load_data rt filepath = Inr df"
  shows "''Code'' \<in> set (map fst raw) \<and> ''Code'' \<notin> set (map fst df)
    \<and> map fst df = remove1 ''Code'' (map fst raw) \<and> length df + 1 = length raw
    \<and> (\<forall>name \<in> set energy_columns. \<exists>cells before.
          map_of df name = Some cells \<and> map_of raw name = Some before
          \<and> length cells = length before \<and> CNaN \<notin> set cells
          \<and> (\<forall>i < length cells.
                cells ! i = before ! i \<or>
                (before ! i = CNaN \<and> (cells ! i = CFloat 0 \<or> cells ! i = CInt 0))))
    \<and> (\<exists>years. map_of df ''Year'' = Some years \<and> (\<forall>c \<in> set years. \<exists>i. c = CInt i))
    \<and> (\<exists>entities. map_of df ''Entity'' = Some entities \<and> (\<forall>c \<in> set entities. \<exists>s. c = CStr s))"
proof -
  from assms(3) have "load_data_body rt filepath = Inr df" by (simp add: load_data_Inr)
  with assms(1) obtain d1 d2 d3 where
    d1: "drop_columns ''Code'' raw = Inr d1" and
    d2: "fillna_columns energy_columns d1 = Inr d2" and
    d3: "assign_column ''Year'' (astype_int rt) d2 = Inr d3" and
    d4: "assign_column ''Entity'' (astype_str rt) d3 = Inr df"
    by (auto simp: load_data_body_Inr)
  from d1 have code: "''Code'' \<in> set (map fst raw)"
    and d1_eq: "d1 = filter (\<lambda>(m, c). m \<noteq> ''Code'') raw"
    by (simp_all add: drop_columns_Inr)
  from d2 have present: "set energy_columns \<subseteq> set (map fst d1)"
    and d2_eq: "d2 = map (\<lambda>(n, cells). if n \<in> set energy_columns then (n, fillna_zero cells)
                                      else (n, cells)) d1"
    by (simp_all add: fillna_columns_Inr)
  from d3 obtain ycells years where
    y1: "map_of d2 ''Year'' = Some ycells" and y2: "astype_int rt ycells = Inr years" and
    d3_eq: "d3 = map (\<lambda>(m, cs). if m = ''Year'' then (m, years) else (m, cs)) d2"
    by (auto simp: assign_column_Inr)
  from d4 obtain ecells entities where
    e1: "map_of d3 ''Entity'' = Some ecells" and e2: "astype_str rt ecells = Inr entities" and
    df_eq: "df = map (\<lambda>(m, cs). if m = ''Entity'' then (m, entities) else (m, cs)) d3"
    by (auto simp: assign_column_Inr)
  have names: "map fst df = filter (\<lambda>m. m \<noteq> ''Code'') (map fst raw)"
    by (simp only: df_eq d3_eq d2_eq d1_eq names_assign names_map_cond names_drop)
  have removed: "map fst df = remove1 ''Code'' (map fst raw)"
  proof -
    have "filter (\<lambda>m. m \<noteq> ''Code'') (map fst raw) = removeAll ''Code'' (map fst raw)"
      by (induction raw) auto
    also have "\<dots> = remove1 ''Code'' (map fst raw)"
      using assms(2) by (rule distinct_remove1_removeAll [symmetric])
    finally show ?thesis unfolding names .
  qed
  have len: "length df + 1 = length raw"
  proof -
    have "length (map fst df) = length (map fst raw) - 1"
      unfolding removed using code by (simp add: length_remove1)
    moreover from code have "length (map fst raw) > 0" by (cases raw) auto
    ultimately show ?thesis by simp
  qed
  have gone: "''Code'' \<notin> set (map fst df)"
    unfolding names by simp
  have energy: "\<exists>cells before.
          map_of df name = Some cells \<and> map_of raw name = Some before
          \<and> length cells = length before \<and> CNaN \<notin> set cells
          \<and> (\<forall>i < length cells.
                cells ! i = before ! i \<or>
                (before ! i = CNaN \<and> (cells ! i = CFloat 0 \<or> cells ! i = CInt 0)))"
    if "name \<in> set energy_columns" for name
  proof -
    from that have ne: "name \<noteq> ''Code''" "name \<noteq> ''Year''" "name \<noteq> ''Entity''"
      using energy_columns_names [OF that] by simp_all
    from that present have "name \<in> set (map fst d1)" by (rule subsetD [rotated])
    then obtain before where b1: "map_of d1 name = Some before"
      using map_of_present [of name d1] by blast
    with ne(1) have b: "map_of raw name = Some before"
      by (simp add: d1_eq map_of_drop)
    have "map_of df name = map_of d3 name"
      using ne by (simp add: df_eq map_of_assign)
    also have "\<dots> = map_of d2 name"
      using ne by (simp add: d3_eq map_of_assign)
    also have "\<dots> = Some (fillna_zero before)"
      using that b1 by (simp add: d2_eq map_of_map_cond)
    finally have c: "map_of df name = Some (fillna_zero before)" .
    show ?thesis
    proof (intro exI conjI)
      show "map_of df name = Some (fillna_zero before)" by (rule c)
      show "map_of raw name = Some before" by (rule b)
      show "length (fillna_zero before) = length before" by (rule fillna_zero_cells(1))
      show "CNaN \<notin> set (fillna_zero before)" by (rule fillna_zero_cells(2))
      show "\<forall>i < length (fillna_zero before).
              fillna_zero before ! i = before ! i \<or>
              (before ! i = CNaN \<and>
               (fillna_zero before ! i = CFloat 0 \<or> fillna_zero before ! i = CInt 0))"
        using fillna_zero_cells(3) [of _ before] by (simp add: fillna_zero_cells(1))
    qed
  qed
  have year: "\<exists>years. map_of df ''Year'' = Some years \<and> (\<forall>c \<in> set years. \<exists>i. c = CInt i)"
  proof -
    have "map_of d3 ''Year'' = Some years"
      using y1 by (simp add: d3_eq map_of_assign)
    then have "map_of df ''Year'' = Some years"
      by (simp add: df_eq map_of_assign)
    with astype_int_Inr [OF y2] show ?thesis by (intro exI conjI)
  qed
  have entity: "\<exists>entities. map_of df ''Entity'' = Some entities
                  \<and> (\<forall>c \<in> set entities. \<exists>s. c = CStr s)"
  proof -
    have "map_of df ''Entity'' = Some entities"
      using e1 by (simp add: df_eq map_of_assign)
    with astype_str_strings [OF e2] show ?thesis by (intro exI conjI)
  qed
  from energy have energies: "\<forall>name \<in> set energy_columns. \<exists>cells before.
          map_of df name = Some cells \<and> map_of raw name = Some before
          \<and> length cells = length before \<and> CNaN \<notin> set cells
          \<and> (\<forall>i < length cells.
                cells ! i = before ! i \<or>
                (before ! i = CNaN \<and> (cells ! i = CFloat 0 \<or> cells ! i = CInt 0)))"
    by (rule ballI)
  show ?thesis
    by (intro conjI) (rule code gone removed len energies year entity)+
qed

theorem load_data_postconditions_witness:
  "read_csv (example_runtime (\<lambda>c. Inr example_raw)) ''modern-renewable-prod.csv'' = Inr example_raw
   \<and> distinct (map fst example_raw)
   \<and> load_data (example_runtime (\<lambda>c. Inr example_raw)) ''modern-renewable-prod.csv'' =
        Inr example_loaded
   \<and> ''Code'' \<notin> set (map fst example_loaded)
   \<and> length example_loaded + 1 = length example_raw"
proof -
  have r: "read_csv (example_runtime (\<lambda>c. Inr example_raw)) ''modern-renewable-prod.csv'' =
           Inr example_raw"
    by (simp add: read_csv_def example_runtime_def)
  have d: "distinct (map fst example_raw)"
    by (simp add: example_raw_def)
  have l: "load_data (example_runtime (\<lambda>c. Inr example_raw)) ''modern-renewable-prod.csv'' =
        Inr example_loaded"
    by (simp add: load_data_Inr example_load)
  from load_data_postconditions [OF r d l] r d l show ?thesis by (intro conjI) (elim conjE, assumption)+
qed

section \<open>How loading fails\<close>

text \<open>
  Claim C5. When no file is at the path, \<open>load_data\<close> raises a FileNotFoundError. When
  the parser raises a ParserError, \<open>load_data\<close> raises the ValueError "Error parsing
  the CSV file. Please check the file format.". Every other exception raised in the body,
  by the parser or by a later step, is raised unchanged. \<open>load_data\<close> returns a table
  exactly when its body does, that is exactly when the file is there, the parser returns
  a table, the columns \<open>Code\<close>, \<open>Entity\<close> and the four energy columns are in it, and
  the column \<open>Year\<close> is in it with every cell convertible to an integer. Whatever
  \<open>load_data\<close> raises at startup becomes the static alert that replaces the layout.
\<close>

theorem load_data_failures:
  "(files rt filepath = None \<longrightarrow>
      load_data rt filepath =
        Inl (FileNotFoundError
               (''The data file '' @ [CHR 0x27] @ ''modern-renewable-prod.csv'' @ [CHR 0x27] @
                '' was not found.'')))
   \<and> (files rt filepath = Some content \<longrightarrow> parse_csv rt content = Inl (ParserError m) \<longrightarrow>
      load_data rt filepath =
        Inl (ValueError ''Error parsing the CSV file. Please check the file format.''))
   \<and> (load_data_body rt filepath = Inl e \<longrightarrow>
        (\<forall>m. e \<noteq> FileNotFoundError m) \<longrightarrow> (\<forall>m. e \<noteq> ParserError m) \<longrightarrow>
      load_data rt filepath = Inl e)
   \<and> (files rt filepath = Some content \<longrightarrow> parse_csv rt content = Inl e \<longrightarrow>
        (\<forall>m. e \<noteq> FileNotFoundError m) \<longrightarrow> (\<forall>m. e \<noteq> ParserError m) \<longrightarrow>
      load_data rt filepath = Inl e)
   \<and> (load_data rt filepath = Inr df \<longleftrightarrow> load_data_body rt filepath = Inr df)
   \<and> ((\<exists>df. load_data rt filepath = Inr df) \<longleftrightarrow>
       (\<exists>content raw. files rt filepath = Some content \<and> parse_csv rt content = Inr raw
          \<and> ''Code'' \<in> set (map fst raw) \<and> set energy_columns \<subseteq> set (map fst raw)
          \<and> (\<exists>years. map_of raw ''Year'' = Some years
                \<and> (\<forall>c \<in> set years. c \<noteq> CNaN \<and> (\<forall>s. c = CStr s \<longrightarrow> int_of_str rt s \<noteq> None)))
          \<and> ''Entity'' \<in> set (map fst raw)))
   \<and> (load_data rt ''modern-renewable-prod.csv'' = Inl e \<longrightarrow> initial_layout rt = ErrorAlert e)"
proof -
  have body_raise: "load_data_body rt filepath = Inl x" if "read_csv rt filepath = Inl x" for x
    using that by (simp add: load_data_body_def and_then_def)
  have 1: "load_data rt filepath =
        Inl (FileNotFoundError
               (''The data file '' @ [CHR 0x27] @ ''modern-renewable-prod.csv'' @ [CHR 0x27] @
                '' was not found.''))" if "files rt filepath = None"
  proof -
    from that have "read_csv rt filepath = Inl (FileNotFoundError filepath)"
      by (simp add: read_csv_def)
    then have "load_data_body rt filepath = Inl (FileNotFoundError filepath)"
      by (rule body_raise)
    then show ?thesis by (simp add: load_data_def)
  qed
  have 2: "load_data rt filepath =
        Inl (ValueError ''Error parsing the CSV file. Please check the file format.'')"
    if "files rt filepath = Some content" "parse_csv rt content = Inl (ParserError m)"
  proof -
    from that have "read_csv rt filepath = Inl (ParserError m)"
      by (simp add: read_csv_def)
    then have "load_data_body rt filepath = Inl (ParserError m)"
      by (rule body_raise)
    then show ?thesis by (simp add: load_data_def)
  qed
  have 3: "load_data rt filepath = Inl x"
    if "load_data_body rt filepath = Inl x" "\<forall>m. x \<noteq> FileNotFoundError m" "\<forall>m. x \<noteq> ParserError m"
    for x
    using that by (cases x) (simp_all add: load_data_def)
  have 4: "load_data rt filepath = Inl e"
    if "files rt filepath = Some content" "parse_csv rt content = Inl e"
      "\<forall>m. e \<noteq> FileNotFoundError m" "\<forall>m. e \<noteq> ParserError m"
  proof -
    from that(1,2) have "read_csv rt filepath = Inl e" by (simp add: read_csv_def)
    then have "load_data_body rt filepath = Inl e" by (rule body_raise)
    then show ?thesis using that(3,4) by (rule 3)
  qed
  have 5: "load_data rt filepath = Inr df \<longleftrightarrow> load_data_body rt filepath = Inr df"
    by (rule load_data_Inr)
  have 6: "(\<exists>df. load_data rt filepath = Inr df) \<longleftrightarrow>
       (\<exists>content raw. files rt filepath = Some content \<and> parse_csv rt content = Inr raw
          \<and> ''Code'' \<in> set (map fst raw) \<and> set energy_columns \<subseteq> set (map fst raw)
          \<and> (\<exists>years. map_of raw ''Year'' = Some years
                \<and> (\<forall>c \<in> set years. c \<noteq> CNaN \<and> (\<forall>s. c = CStr s \<longrightarrow> int_of_str rt s \<noteq> None)))
          \<and> ''Entity'' \<in> set (map fst raw))"
    unfolding load_data_Inr by (rule load_data_body_accepts)
  have 7: "initial_layout rt = ErrorAlert e" if "load_data rt ''modern-renewable-prod.csv'' = Inl e"
    using that by (simp add: initial_layout_def)
  show ?thesis
    apply (intro conjI impI)
    subgoal by (rule 1)
    subgoal by (rule 2)
    subgoal by (rule 3)
    subgoal by (rule 4)
    subgoal by (rule 5)
    subgoal by (rule 6)
    subgoal by (rule 7)
    done
qed

theorem load_data_failures_witness:
  "load_data (example_runtime (\<lambda>c. Inr example_raw)) ''missing.csv'' =
     Inl (FileNotFoundError
            (''The data file '' @ [CHR 0x27] @ ''modern-renewable-prod.csv'' @ [CHR 0x27] @
             '' was not found.''))
   \<and> load_data (example_runtime (\<lambda>c. Inl (ParserError ''Error tokenizing data'')))
        ''modern-renewable-prod.csv'' =
     Inl (ValueError ''Error parsing the CSV file. Please check the file format.'')
   \<and> load_data (example_runtime (\<lambda>c. Inl (OtherException ''EmptyDataError'' ''No columns'')))
        ''modern-renewable-prod.csv'' =
     Inl (OtherException ''EmptyDataError'' ''No columns'')
   \<and> load_data (example_runtime (\<lambda>c. Inr [(''Entity'', [CStr ''Tunisia''])]))
        ''modern-renewable-prod.csv'' = Inl (KeyError ''Code'')
   \<and> initial_layout (example_runtime (\<lambda>c. Inl (ParserError ''Error tokenizing data''))) =
     ErrorAlert (ValueError ''Error parsing the CSV file. Please check the file format.'')"
proof -
  let ?ok = "example_runtime (\<lambda>c. Inr example_raw)"
  let ?bad = "example_runtime (\<lambda>c. Inl (ParserError ''Error tokenizing data''))"
  let ?other = "example_runtime (\<lambda>c. Inl (OtherException ''EmptyDataError'' ''No columns''))"
  let ?nocode = "example_runtime (\<lambda>c. Inr [(''Entity'', [CStr ''Tunisia''])])"
  have a: "files ?ok ''missing.csv'' = None"
    by (simp add: example_runtime_def)
  have b: "files ?bad ''modern-renewable-prod.csv'' = Some ''Entity,Code,Year''"
    "parse_csv ?bad ''Entity,Code,Year'' = Inl (ParserError ''Error tokenizing data'')"
    by (simp_all add: example_runtime_def)
  have c: "files ?other ''modern-renewable-prod.csv'' = Some ''Entity,Code,Year''"
    "parse_csv ?other ''Entity,Code,Year'' = Inl (OtherException ''EmptyDataError'' ''No columns'')"
    "\<forall>m. OtherException ''EmptyDataError'' ''No columns'' \<noteq> FileNotFoundError m"
    "\<forall>m. OtherException ''EmptyDataError'' ''No columns'' \<noteq> ParserError m"
    by (simp_all add: example_runtime_def)
  have d: "load_data_body ?nocode ''modern-renewable-prod.csv'' = Inl (KeyError ''Code'')"
    "\<forall>m. KeyError ''Code'' \<noteq> FileNotFoundError m" "\<forall>m. KeyError ''Code'' \<noteq> ParserError m"
    by (simp_all add: load_data_body_def read_csv_def example_runtime_def and_then_def
        drop_columns_def)
  have A: "load_data ?ok ''missing.csv'' =
     Inl (FileNotFoundError
            (''The data file '' @ [CHR 0x27] @ ''modern-renewable-prod.csv'' @ [CHR 0x27] @
             '' was not found.''))"
    by (rule load_data_failures [THEN conjunct1, THEN mp, OF a])
  have B: "load_data ?bad ''modern-renewable-prod.csv'' =
     Inl (ValueError ''Error parsing the CSV file. Please check the file format.'')"
    by (rule load_data_failures [THEN conjunct2, THEN conjunct1, THEN mp, THEN mp, OF b])
  have C: "load_data ?other ''modern-renewable-prod.csv'' =
     Inl (OtherException ''EmptyDataError'' ''No columns'')"
    by (rule load_data_failures
               [THEN conjunct2, THEN conjunct2, THEN conjunct2, THEN conjunct1,
                THEN mp, THEN mp, THEN mp, THEN mp, OF c])
  have D: "load_data ?nocode ''modern-renewable-prod.csv'' = Inl (KeyError ''Code'')"
    by (rule load_data_failures
               [THEN conjunct2, THEN conjunct2, THEN conjunct1, THEN mp, THEN mp, THEN mp, OF d])
  have E: "initial_layout ?bad =
     ErrorAlert (ValueError ''Error parsing the CSV file. Please check the file format.'')"
    by (rule load_data_failures
               [THEN conjunct2, THEN conjunct2, THEN conjunct2, THEN conjunct2, THEN conjunct2,
                THEN conjunct2, THEN mp, OF B])
  from A B C D E show ?thesis by (intro conjI)
qed

end
